theory Spec2Isabelle
  imports Complex_Main "HOL-Library.Char_ord" "HOL-Library.List_Lexorder"
begin

section \<open>Python exceptions as values\<close>

text \<open>
  Every place where the simulator can raise is a branch returning \<open>Inl\<close> of one of these.
  Floats are modelled as \<open>real\<close>: rounding, infinities and NaN are outside the model, so
  every division whose divisor may be zero is either guarded by the model (where Python
  raises) or by a hypothesis of the theorem that uses it (where numpy would give inf/NaN).
\<close>

datatype error =
    ZeroDivisionError
  | UnboundLocalError string
  | ValueError string
  | KeyError string
  | IndexError
  | TypeError

section \<open>Configuration: the dictionary of \<open>parametros_configurables.cargar_parametros\<close>\<close>

text \<open>
  One record per nested dictionary, the fields named after the keys with the prefix
  \<open>cfg_\<close> (the attributes of the parameter object carry the plain names). The entry
  \<open>opciones_visualizacion\<close> only drives the plots and is left out.
\<close>

record cfg_dimensiones =
  cfg_largo :: real
  cfg_ancho :: real
  cfg_altura :: real

record cfg_propiedades_termicas =
  cfg_absorptividad :: real
  cfg_angulo_incidencia :: real
  cfg_material_caja :: string

record cfg_propiedades_agua =
  cfg_cp_agua :: real
  cfg_calor_latente_vaporizacion :: real
  cfg_temp_inicial :: real
  cfg_temp_ebullicion :: real

record cfg_condiciones_operacion =
  cfg_horas_radiacion_util :: real
  cfg_masa_agua :: real
  cfg_hemisferio :: string
  cfg_ubicacion_latitud :: real

record cfg_parametros_simulacion =
  cfg_radiacion_base :: real
  cfg_amplitud_variacion :: real
  cfg_variabilidad_diaria :: real
  cfg_factor_eficiencia_alta :: real
  cfg_factor_eficiencia_media :: real
  cfg_factor_eficiencia_baja :: real
  cfg_factor_eficiencia_minima :: real

record configuracion =
  dimensiones :: cfg_dimensiones
  propiedades_termicas :: cfg_propiedades_termicas
  propiedades_agua :: cfg_propiedades_agua
  conductividades_termicas :: "(string \<times> real) list"
  condiciones_operacion :: cfg_condiciones_operacion
  parametros_simulacion :: cfg_parametros_simulacion

definition DIMENSIONES :: cfg_dimensiones where
  "DIMENSIONES = \<lparr>cfg_largo = 45/100, cfg_ancho = 25/100, cfg_altura = 30/100\<rparr>"

definition PROPIEDADES_TERMICAS :: cfg_propiedades_termicas where
  "PROPIEDADES_TERMICAS =
     \<lparr>cfg_absorptividad = 9/10, cfg_angulo_incidencia = 30, cfg_material_caja = ''aluminio''\<rparr>"

definition PROPIEDADES_AGUA :: cfg_propiedades_agua where
  "PROPIEDADES_AGUA =
     \<lparr>cfg_cp_agua = 4186, cfg_calor_latente_vaporizacion = 2260000,
      cfg_temp_inicial = 293, cfg_temp_ebullicion = 368\<rparr>"

definition CONDUCTIVIDADES_TERMICAS :: "(string \<times> real) list" where
  "CONDUCTIVIDADES_TERMICAS = [(''acero'', 50), (''aluminio'', 205), (''pvc'', 19/100)]"

definition CONDICIONES_OPERACION :: cfg_condiciones_operacion where
  "CONDICIONES_OPERACION =
     \<lparr>cfg_horas_radiacion_util = 6, cfg_masa_agua = 2, cfg_hemisferio = ''norte'',
      cfg_ubicacion_latitud = 40\<rparr>"

definition PARAMETROS_SIMULACION :: cfg_parametros_simulacion where
  "PARAMETROS_SIMULACION =
     \<lparr>cfg_radiacion_base = 500, cfg_amplitud_variacion = 350, cfg_variabilidad_diaria = 100,
      cfg_factor_eficiencia_alta = 80/100, cfg_factor_eficiencia_media = 70/100,
      cfg_factor_eficiencia_baja = 55/100, cfg_factor_eficiencia_minima = 35/100\<rparr>"

definition cargar_parametros :: configuracion where
  "cargar_parametros =
     \<lparr>dimensiones = DIMENSIONES, propiedades_termicas = PROPIEDADES_TERMICAS,
      propiedades_agua = PROPIEDADES_AGUA, conductividades_termicas = CONDUCTIVIDADES_TERMICAS,
      condiciones_operacion = CONDICIONES_OPERACION,
      parametros_simulacion = PARAMETROS_SIMULACION\<rparr>"

section \<open>Derived parameters: \<open>ParametrosDesalinizador.__init__\<close>\<close>

record factores =
  alto :: real
  medio :: real
  bajo :: real
  minimo :: real

text \<open>
  The attributes of a \<open>ParametrosDesalinizador\<close> object, in the order \<open>__init__\<close> assigns
  them. \<open>energia_calentamiento\<close> and \<open>energia_evaporacion\<close> carry the suffix \<open>_req\<close>: the
  result table has columns of the same names.
\<close>

record ParametrosDesalinizador =
  config :: configuracion
  largo :: real
  ancho :: real
  altura :: real
  area_captacion :: real
  volumen :: real
  volumen_litros :: real
  area_base :: real
  area_tapa :: real
  area_paredes :: real
  area_total :: real
  absorptividad :: real
  emisividad :: real
  transmisividad_vidrio :: real
  angulo_incidencia :: real
  cos_angulo :: real
  material_caja :: string
  sigma :: real
  conductividad_material :: real
  conductividad_aislamiento :: real
  espesor_material :: real
  espesor_aislamiento :: real
  cp_agua :: real
  calor_latente_vaporizacion :: real
  temp_inicial :: real
  temp_ebullicion :: real
  delta_T :: real
  masa_agua :: real
  profundidad_agua :: real
  horas_radiacion_util :: real
  segundos_radiacion_util :: real
  hemisferio :: string
  latitud :: real
  h_conveccion_natural :: real
  h_conveccion_agua :: real
  h_condensacion :: real
  h_evaporacion :: real
  R_conduccion :: real
  R_aislamiento :: real
  energia_calentamiento_req :: real
  energia_evaporacion_req :: real
  energia_total_requerida :: real
  energia_por_kg :: real
  param_sim :: cfg_parametros_simulacion
  factores_eficiencia :: factores

text \<open>Python's \<open>/\<close> on two scalars: a zero divisor raises.\<close>

definition py_div :: "real \<Rightarrow> real \<Rightarrow> error + real" where
  "py_div a b = (if b \<noteq> 0 then Inr (a / b) else Inl ZeroDivisionError)"

text \<open>\<open>dict.get(key, default)\<close> on the conductivity table.\<close>

definition dict_get :: "(string \<times> real) list \<Rightarrow> string \<Rightarrow> real \<Rightarrow> real" where
  "dict_get d k dflt = (case map_of d k of None \<Rightarrow> dflt | Some v \<Rightarrow> v)"

definition radians :: "real \<Rightarrow> real" where
  "radians x = x * pi / 180"

definition calcular_coef_evaporacion :: real where
  "calcular_coef_evaporacion = 25"

text \<open>
  The constructor reads the configuration and computes every attribute. It contains no
  check of any parameter; the only way it can fail is one of its four scalar divisions:
  \<open>profundidad_agua\<close> (by \<open>1000 * area_base\<close>), \<open>calcular_R_conduccion\<close>,
  \<open>calcular_R_aislamiento\<close> and \<open>energia_por_kg\<close> (by \<open>masa_agua\<close>), in this order.
\<close>

definition init_ParametrosDesalinizador :: "configuracion \<Rightarrow> error + ParametrosDesalinizador" where
  "init_ParametrosDesalinizador c =
    (let dim = dimensiones c;
         l = cfg_largo dim; a = cfg_ancho dim; h = cfg_altura dim;
         a_base = l * a;
         a_paredes = 2 * (l + a) * h;
         prop_term = propiedades_termicas c;
         k_mat = dict_get (conductividades_termicas c) (cfg_material_caja prop_term) 205;
         prop_agua = propiedades_agua c;
         dT = cfg_temp_ebullicion prop_agua - cfg_temp_inicial prop_agua;
         cond_op = condiciones_operacion c;
         m = cfg_masa_agua cond_op;
         e_cal = m * cfg_cp_agua prop_agua * dT;
         e_evap = m * cfg_calor_latente_vaporizacion prop_agua
     in case py_div m (1000 * a_base) of Inl e \<Rightarrow> Inl e | Inr prof \<Rightarrow>
        (case py_div (25/10000) (k_mat * a_paredes) of Inl e \<Rightarrow> Inl e | Inr r_cond \<Rightarrow>
        (case py_div (2/100) ((4/100) * a_paredes) of Inl e \<Rightarrow> Inl e | Inr r_aisl \<Rightarrow>
        (case py_div (e_cal + e_evap) m of Inl e \<Rightarrow> Inl e | Inr e_kg \<Rightarrow>
          Inr \<lparr>config = c,
               largo = l, ancho = a, altura = h,
               area_captacion = l * a,
               volumen = l * a * h,
               volumen_litros = l * a * h * 1000,
               area_base = a_base,
               area_tapa = l * a,
               area_paredes = a_paredes,
               area_total = a_base + l * a + a_paredes,
               absorptividad = cfg_absorptividad prop_term,
               emisividad = 95/100,
               transmisividad_vidrio = 9/10,
               angulo_incidencia = cfg_angulo_incidencia prop_term,
               cos_angulo = cos (radians (cfg_angulo_incidencia prop_term)),
               material_caja = cfg_material_caja prop_term,
               sigma = 567 / 10 ^ 10,
               conductividad_material = k_mat,
               conductividad_aislamiento = 4/100,
               espesor_material = 25/10000,
               espesor_aislamiento = 2/100,
               cp_agua = cfg_cp_agua prop_agua,
               calor_latente_vaporizacion = cfg_calor_latente_vaporizacion prop_agua,
               temp_inicial = cfg_temp_inicial prop_agua,
               temp_ebullicion = cfg_temp_ebullicion prop_agua,
               delta_T = dT,
               masa_agua = m,
               profundidad_agua = prof,
               horas_radiacion_util = cfg_horas_radiacion_util cond_op,
               segundos_radiacion_util = cfg_horas_radiacion_util cond_op * 3600,
               hemisferio = cfg_hemisferio cond_op,
               latitud = cfg_ubicacion_latitud cond_op,
               h_conveccion_natural = 5,
               h_conveccion_agua = 50,
               h_condensacion = 8000,
               h_evaporacion = calcular_coef_evaporacion,
               R_conduccion = r_cond,
               R_aislamiento = r_aisl,
               energia_calentamiento_req = e_cal,
               energia_evaporacion_req = e_evap,
               energia_total_requerida = e_cal + e_evap,
               energia_por_kg = e_kg,
               param_sim = parametros_simulacion c,
               factores_eficiencia = \<lparr>alto = 85/100, medio = 65/100, bajo = 45/100, minimo = 25/100\<rparr>\<rparr>))))"

section \<open>Calendar dates: \<open>datetime\<close> and \<open>timedelta(days=i)\<close>\<close>

record datetime =
  year :: nat
  month :: nat
  day :: nat

definition es_bisiesto :: "nat \<Rightarrow> bool" where
  "es_bisiesto y \<longleftrightarrow> y mod 4 = 0 \<and> (y mod 100 \<noteq> 0 \<or> y mod 400 = 0)"

definition dias_en_mes :: "nat \<Rightarrow> nat \<Rightarrow> nat" where
  "dias_en_mes y m =
     (if m = 2 then (if es_bisiesto y then 29 else 28)
      else if m = 4 \<or> m = 6 \<or> m = 9 \<or> m = 11 then 30 else 31)"

definition dia_siguiente :: "datetime \<Rightarrow> datetime" where
  "dia_siguiente d =
     (if day d < dias_en_mes (year d) (month d) then d\<lparr>day := day d + 1\<rparr>
      else if month d < 12 then d\<lparr>month := month d + 1, day := 1\<rparr>
      else \<lparr>year = year d + 1, month = 1, day = 1\<rparr>)"

text \<open>\<open>d + timedelta(days=n)\<close>.\<close>

fun mas_dias :: "datetime \<Rightarrow> nat \<Rightarrow> datetime" where
  "mas_dias d 0 = d"
| "mas_dias d (Suc n) = dia_siguiente (mas_dias d n)"

text \<open>The proleptic Gregorian ordinal of a date, which \<open>(a - b).days\<close> subtracts.\<close>

definition dias_antes_de_anio :: "nat \<Rightarrow> nat" where
  "dias_antes_de_anio y =
     (y - 1) * 365 + (y - 1) div 4 - (y - 1) div 100 + (y - 1) div 400"

definition dias_antes_de_mes :: "nat \<Rightarrow> nat \<Rightarrow> nat" where
  "dias_antes_de_mes y m = sum_list (map (dias_en_mes y) [1..<m])"

definition toordinal :: "datetime \<Rightarrow> nat" where
  "toordinal d = dias_antes_de_anio (year d) + dias_antes_de_mes (year d) (month d) + day d"

definition dias_entre :: "datetime \<Rightarrow> datetime \<Rightarrow> int" where
  "dias_entre a b = int (toordinal a) - int (toordinal b)"

definition fecha_inicio :: datetime where
  "fecha_inicio = \<lparr>year = 2024, month = 1, day = 1\<rparr>"

definition fechas :: "datetime list" where
  "fechas = map (mas_dias fecha_inicio) [0..<365]"

text \<open>The first day of month \<open>m\<close> of 2024.\<close>

definition primero :: "nat \<Rightarrow> datetime" where
  "primero m = \<lparr>year = 2024, month = m, day = 1\<rparr>"

section \<open>The process-wide random generator of numpy\<close>

text \<open>
  numpy's generator is a library, not part of the repository. It enters the model as two
  parameters: \<open>semilla\<close>, the state that \<open>np.random.seed(n)\<close> installs, and \<open>gauss\<close>, one
  standard normal draw together with the state after it. The global generator state is
  threaded through every function that draws.
\<close>

fun normales :: "('g \<Rightarrow> real \<times> 'g) \<Rightarrow> 'g \<Rightarrow> nat \<Rightarrow> real list \<times> 'g" where
  "normales gauss g 0 = ([], g)"
| "normales gauss g (Suc n) =
     (case gauss g of (z, g1) \<Rightarrow>
        (case normales gauss g1 n of (zs, g2) \<Rightarrow> (z # zs, g2)))"

text \<open>\<open>np.random.normal(loc, scale, size)\<close>: a negative scale raises \<open>ValueError\<close>.\<close>

definition np_random_normal ::
  "('g \<Rightarrow> real \<times> 'g) \<Rightarrow> real \<Rightarrow> real \<Rightarrow> nat \<Rightarrow> 'g \<Rightarrow> (error + real list) \<times> 'g" where
  "np_random_normal gauss loc scale n g =
     (if scale < 0 then (Inl (ValueError ''scale < 0''), g)
      else case normales gauss g n of (zs, g') \<Rightarrow> (Inr (map (\<lambda>z. loc + scale * z) zs), g'))"

definition np_clip :: "real \<Rightarrow> real \<Rightarrow> real \<Rightarrow> real" where
  "np_clip x lo hi = min (max x lo) hi"

section \<open>Climate generator: \<open>ModeloClimatico\<close>\<close>

record ModeloClimatico =
  mc_params :: ParametrosDesalinizador
  mc_hemisferio :: string
  mc_latitud :: real
  mc_param_sim :: cfg_parametros_simulacion

text \<open>The constructor stores the parameters and re-seeds the global generator with 42.\<close>

definition init_ModeloClimatico ::
  "(nat \<Rightarrow> 'g) \<Rightarrow> ParametrosDesalinizador \<Rightarrow> 'g \<Rightarrow> ModeloClimatico \<times> 'g" where
  "init_ModeloClimatico semilla params g =
     (\<lparr>mc_params = params, mc_hemisferio = hemisferio params, mc_latitud = latitud params,
       mc_param_sim = param_sim params\<rparr>, semilla 42)"

text \<open>\<open>str.lower\<close> on the ASCII letters.\<close>

definition lower_char :: "char \<Rightarrow> char" where
  "lower_char c = (if CHR ''A'' \<le> c \<and> c \<le> CHR ''Z'' then char_of (of_char c + (32::nat)) else c)"

definition lower :: "string \<Rightarrow> string" where
  "lower s = map lower_char s"

text \<open>One row of the table \<open>generar_datos_anuales\<close> returns (column \<open>dia_del_a\~no\<close> is
  spelled \<open>dia_del_anio\<close>).\<close>

record fila_clima =
  fecha :: datetime
  mes :: int
  dia :: int
  dia_del_anio :: int
  radiacion_Wm2 :: real
  temp_ambiente_C :: real
  temp_ambiente_K :: real
  humedad_relativa :: real
  presion_vapor_Pa :: real
  velocidad_viento :: real

definition fase_mes :: "string \<Rightarrow> int \<Rightarrow> real" where
  "fase_mes hem m =
     (if lower hem = ''norte'' then real_of_int (m - 6) * (2 * pi / 12)
      else real_of_int (m - 12) * (2 * pi / 12))"

text \<open>
  The body of \<open>generar_datos_anuales\<close> for the day with index \<open>i\<close>, once the four noise
  vectors are drawn and the seasonal humidity of the day is known. All its operations are
  numpy array operations, which do not raise.
\<close>

definition fila_de_dia ::
  "string \<Rightarrow> cfg_parametros_simulacion \<Rightarrow> real \<Rightarrow> real \<Rightarrow> real \<Rightarrow> real \<Rightarrow> real \<Rightarrow> datetime
     \<Rightarrow> fila_clima" where
  "fila_de_dia hem ps humedad_estacional variacion_diaria variacion_temp_diaria variacion_humedad
               variacion_viento f =
    (let m = int (month f);
         fase = fase_mes hem m;
         radiacion_media = cfg_radiacion_base ps + cfg_amplitud_variacion ps * cos fase;
         radiacion = np_clip (radiacion_media + variacion_diaria) 100 950;
         temp_amb_estacional =
           (if lower hem = ''norte'' then 15 - 12 * cos fase else 15 + 12 * cos fase);
         temp_ambiente = temp_amb_estacional + variacion_temp_diaria;
         humedad = np_clip (humedad_estacional + variacion_humedad) 30 95;
         presion_sat = (61078/100) * exp ((1727/100) * temp_ambiente / (temp_ambiente + 2373/10));
         presion_vapor = humedad * presion_sat / 100;
         viento_estacional = 2 + 1 * sin fase;
         viento = max (1/2) (viento_estacional + variacion_viento)
     in \<lparr>fecha = f, mes = m, dia = int (day f), dia_del_anio = dias_entre f fecha_inicio,
         radiacion_Wm2 = radiacion, temp_ambiente_C = temp_ambiente,
         temp_ambiente_K = temp_ambiente + 27315/100, humedad_relativa = humedad,
         presion_vapor_Pa = presion_vapor, velocidad_viento = viento\<rparr>)"

text \<open>
  \<open>generar_datos_anuales\<close>, statement by statement. The draws happen in the order
  irradiance, ambient temperature, humidity, wind. \<open>humedad_base\<close> and \<open>humedad_amplitud\<close>
  are assigned only in the branch \<open>hemisferio.lower() == 'norte'\<close>; the other branch reads
  \<open>humedad_base\<close> first, which raises \<open>UnboundLocalError\<close> after the first two draws.
\<close>

definition generar_datos_anuales ::
  "('g \<Rightarrow> real \<times> 'g) \<Rightarrow> ModeloClimatico \<Rightarrow> 'g \<Rightarrow> (error + fila_clima list) \<times> 'g" where
  "generar_datos_anuales gauss self g0 =
    (let hem = mc_hemisferio self; ps = mc_param_sim self; n = length fechas in
     case np_random_normal gauss 0 (cfg_variabilidad_diaria ps) n g0 of
       (Inl e, g1) \<Rightarrow> (Inl e, g1)
     | (Inr variacion_diaria, g1) \<Rightarrow>
     (case np_random_normal gauss 0 3 n g1 of
       (Inl e, g2) \<Rightarrow> (Inl e, g2)
     | (Inr variacion_temp_diaria, g2) \<Rightarrow>
     if lower hem \<noteq> ''norte'' then (Inl (UnboundLocalError ''humedad_base''), g2)
     else
     (case np_random_normal gauss 0 10 n g2 of
       (Inl e, g3) \<Rightarrow> (Inl e, g3)
     | (Inr variacion_humedad, g3) \<Rightarrow>
     (case np_random_normal gauss 0 (8/10) n g3 of
       (Inl e, g4) \<Rightarrow> (Inl e, g4)
     | (Inr variacion_viento, g4) \<Rightarrow>
       (Inr (map (\<lambda>i. fila_de_dia hem ps
                        (60 + 20 * cos (fase_mes hem (int (month (fechas ! i)))))
                        (variacion_diaria ! i) (variacion_temp_diaria ! i)
                        (variacion_humedad ! i) (variacion_viento ! i) (fechas ! i))
                 [0..<n]), g4)))))"

section \<open>Thermal model: \<open>ModeloTermico\<close>\<close>

text \<open>
  The methods of \<open>ModeloTermico\<close> read nothing of the object but \<open>self.params\<close>, so they
  take the parameters directly. Each of them is a sequence of column-wise operations on
  the table, that is, one pure function applied to every row; the rows are extended
  records, one extension per method, with the columns in the order they are created.
\<close>

definition calcular_coef_conveccion_viento :: "real \<Rightarrow> real" where
  "calcular_coef_conveccion_viento velocidad = 57/10 + (38/10) * velocidad"

record fila_temp = fila_clima +
  temp_vidrio_K :: real
  temp_agua_K :: real
  temp_base_K :: real
  temp_agua_C :: real
  temp_vidrio_C :: real
  temp_base_C :: real

definition fila_temperatura :: "fila_clima \<Rightarrow> fila_temp" where
  "fila_temperatura r =
    (let factor_temp_agua = 8/100;
         t_agua = temp_ambiente_K r + factor_temp_agua * radiacion_Wm2 r;
         t_vidrio = temp_ambiente_K r + (3/10) * (t_agua - temp_ambiente_K r);
         t_base = t_agua + 2
     in fila_clima.extend r
          (fila_temp.fields t_vidrio t_agua t_base
             (t_agua - 27315/100) (t_vidrio - 27315/100) (t_base - 27315/100)))"

text \<open>The table-level method; that it leaves its argument alone is the subject of the
  store model further down.\<close>

definition calcular_temperatura_sistema :: "fila_clima list \<Rightarrow> fila_temp list" where
  "calcular_temperatura_sistema datos_climaticos = map fila_temperatura datos_climaticos"

record resistencias =
  R_paredes :: real
  R_vidrio :: real
  R_conv_ext :: real
  R_total :: real

text \<open>\<open>calcular_resistencias_totales\<close> divides Python scalars five times.\<close>

definition calcular_resistencias_totales :: "ParametrosDesalinizador \<Rightarrow> error + resistencias" where
  "calcular_resistencias_totales p =
    (let r_paredes = R_conduccion p + R_aislamiento p in
     case py_div (1/100) (1 * area_tapa p) of Inl e \<Rightarrow> Inl e | Inr r_vidrio \<Rightarrow>
     (case py_div 1 (h_conveccion_natural p * area_total p) of Inl e \<Rightarrow> Inl e | Inr r_conv \<Rightarrow>
     (case py_div 1 r_paredes of Inl e \<Rightarrow> Inl e | Inr g_paredes \<Rightarrow>
     (case py_div 1 r_vidrio of Inl e \<Rightarrow> Inl e | Inr g_vidrio \<Rightarrow>
     (case py_div 1 (g_paredes + g_vidrio) of Inl e \<Rightarrow> Inl e | Inr r_par \<Rightarrow>
        Inr \<lparr>R_paredes = r_paredes, R_vidrio = r_vidrio, R_conv_ext = r_conv,
             R_total = r_par + r_conv\<rparr>)))))"

record fila_perdidas = fila_temp +
  h_conv_ext :: real
  perdida_conv_vidrio :: real
  temp_cielo_K :: real
  perdida_rad_vidrio :: real
  perdida_conv_paredes :: real
  perdida_conduccion :: real
  perdida_total :: real

text \<open>\<open>r_total\<close> is \<open>R_total * factor_resistencia\<close>; the division by it is a numpy
  division (no exception).\<close>

definition fila_perdidas_termicas :: "ParametrosDesalinizador \<Rightarrow> real \<Rightarrow> fila_temp \<Rightarrow> fila_perdidas" where
  "fila_perdidas_termicas p r_total r =
    (let h = calcular_coef_conveccion_viento (velocidad_viento r);
         factor_aislamiento = 15/100;
         p_conv_vidrio = factor_aislamiento * h * area_tapa p * (temp_vidrio_K r - temp_ambiente_K r);
         t_cielo = temp_ambiente_K r - 6;
         p_rad_vidrio = factor_aislamiento * emisividad p * sigma p * area_tapa p *
                        (temp_vidrio_K r ^ 4 - t_cielo ^ 4);
         p_conv_paredes = factor_aislamiento * h * area_paredes p * (temp_agua_K r - temp_ambiente_K r);
         p_conduccion = factor_aislamiento * (temp_agua_K r - temp_ambiente_K r) / r_total
     in fila_temp.extend r
          (fila_perdidas.fields h p_conv_vidrio t_cielo p_rad_vidrio p_conv_paredes p_conduccion
             (p_conv_vidrio + p_rad_vidrio + p_conv_paredes + p_conduccion)))"

definition calcular_perdidas_termicas ::
  "ParametrosDesalinizador \<Rightarrow> fila_temp list \<Rightarrow> error + fila_perdidas list" where
  "calcular_perdidas_termicas p df =
    (let factor_resistencia = 8 in
     case calcular_resistencias_totales p of Inl e \<Rightarrow> Inl e
     | Inr rs \<Rightarrow> Inr (map (fila_perdidas_termicas p (R_total rs * factor_resistencia)) df))"

record fila_resultado = fila_perdidas +
  energia_solar :: real
  energia_perdida :: real
  energia_util :: real
  energia_calentamiento :: real
  energia_evaporacion :: real
  masa_evaporada :: real
  produccion_litros :: real
  GOR :: real
  eficiencia_termica :: real

text \<open>The local \<open>factor_temp\<close> and the local \<open>eficiencia_sistema\<close> (after its
  multiplication by \<open>factor_temp\<close>) of \<open>calcular_masa_evaporada\<close>.\<close>

definition factor_temp :: "real \<Rightarrow> real" where
  "factor_temp temp_C = np_clip ((temp_C + 10) / 40) (1/2) (12/10)"

definition eficiencia_sistema :: "ParametrosDesalinizador \<Rightarrow> real \<Rightarrow> real \<Rightarrow> real" where
  "eficiencia_sistema p radiacion temp_C =
     (if radiacion \<ge> 800 then alto (factores_eficiencia p)
      else if radiacion \<ge> 600 then medio (factores_eficiencia p)
      else if radiacion \<ge> 400 then bajo (factores_eficiencia p)
      else minimo (factores_eficiencia p)) * factor_temp temp_C"

definition fila_masa_evaporada :: "ParametrosDesalinizador \<Rightarrow> fila_perdidas \<Rightarrow> fila_resultado" where
  "fila_masa_evaporada p r =
    (let e_solar = radiacion_Wm2 r * cos_angulo p * absorptividad p * area_captacion p *
                   segundos_radiacion_util p;
         e_perdida = perdida_total r * segundos_radiacion_util p;
         e_util = max 0 (e_solar - min e_perdida ((65/100) * e_solar));
         ef = eficiencia_sistema p (radiacion_Wm2 r) (temp_ambiente_C r);
         e_cal = masa_agua p * cp_agua p * (temp_agua_K r - temp_inicial p);
         e_evap = max 0 (e_util - e_cal);
         masa_evaporada_teorica = e_evap / calor_latente_vaporizacion p;
         max_produccion_diaria = masa_agua p * (25/100);
         m1 = min (masa_evaporada_teorica * ef) max_produccion_diaria;
         m2 = (if m1 < 1/1000 then 0 else m1)
     in fila_perdidas.extend r
          (fila_resultado.fields e_solar e_perdida e_util e_cal e_evap m2 m2
             (if e_solar > 0 then e_evap / e_solar else 0)
             (if e_solar > 0 then e_util / e_solar else 0)))"

definition calcular_masa_evaporada ::
  "ParametrosDesalinizador \<Rightarrow> fila_perdidas list \<Rightarrow> fila_resultado list" where
  "calcular_masa_evaporada p df = map (fila_masa_evaporada p) df"

text \<open>The value the column \<open>masa_evaporada\<close> holds after the cap at a quarter of the
  water mass and before the values below 0.001 are zeroed, read off a result row.\<close>

definition masa_sin_umbral :: "ParametrosDesalinizador \<Rightarrow> fila_resultado \<Rightarrow> real" where
  "masa_sin_umbral p d =
     min (energia_evaporacion d / calor_latente_vaporizacion p *
            eficiencia_sistema p (radiacion_Wm2 d) (temp_ambiente_C d))
         (masa_agua p * (25/100))"

section \<open>The entry point \<open>simular_desalinizador_anual\<close>\<close>

text \<open>
  \<open>params = None\<close> builds the parameters of the default configuration; loading a
  configuration file is input/output and is left to the caller. The result is the table or
  the exception, together with the state of the global generator afterwards.
\<close>

definition simular_desalinizador_anual ::
  "(nat \<Rightarrow> 'g) \<Rightarrow> ('g \<Rightarrow> real \<times> 'g) \<Rightarrow> ParametrosDesalinizador option \<Rightarrow> 'g
     \<Rightarrow> (error + fila_resultado list) \<times> 'g" where
  "simular_desalinizador_anual semilla gauss params g0 =
    (case (case params of None \<Rightarrow> init_ParametrosDesalinizador cargar_parametros
                        | Some p \<Rightarrow> Inr p) of
       Inl e \<Rightarrow> (Inl e, g0)
     | Inr p \<Rightarrow>
       (case init_ModeloClimatico semilla p g0 of (modelo_clima, g1) \<Rightarrow>
        (case generar_datos_anuales gauss modelo_clima g1 of
           (Inl e, g2) \<Rightarrow> (Inl e, g2)
         | (Inr df_clima, g2) \<Rightarrow>
           (let df_temp = calcular_temperatura_sistema df_clima in
            case calcular_perdidas_termicas p df_temp of
              Inl e \<Rightarrow> (Inl e, g2)
            | Inr df_perdidas \<Rightarrow> (Inr (calcular_masa_evaporada p df_perdidas), g2)))))"

text \<open>The three per-row steps of the entry point, composed.\<close>

definition fila_dia :: "ParametrosDesalinizador \<Rightarrow> real \<Rightarrow> fila_clima \<Rightarrow> fila_resultado" where
  "fila_dia p r_total r =
     fila_masa_evaporada p (fila_perdidas_termicas p r_total (fila_temperatura r))"

section \<open>Aggregation: the summaries of \<open>visualizar_resultados\<close>\<close>

text \<open>
  \<open>groupby(key)\<close>: one group per distinct key, the keys in ascending order, each group
  holding its rows in table order. \<open>media\<close> is the mean of a non-empty group.
\<close>

definition groupby :: "('r \<Rightarrow> 'k::linorder) \<Rightarrow> 'r list \<Rightarrow> ('k \<times> 'r list) list" where
  "groupby key df = map (\<lambda>k. (k, filter (\<lambda>r. key r = k) df)) (sort (remdups (map key df)))"

definition media :: "real list \<Rightarrow> real" where
  "media xs = sum_list xs / real (length xs)"

record fila_mensual =
  m_mes :: int
  m_produccion_litros :: real
  m_radiacion_Wm2 :: real
  m_GOR :: real
  m_eficiencia_termica :: real
  m_perdida_total :: real
  m_temp_agua_C :: real
  m_temp_ambiente_C :: real
  m_humedad_relativa :: real
  m_velocidad_viento :: real
  m_energia_solar :: real
  m_energia_util :: real
  m_energia_evaporacion :: real
  m_nombre_mes :: string

definition nombres_meses :: "string list" where
  "nombres_meses = [''Enero'', ''Febrero'', ''Marzo'', ''Abril'', ''Mayo'', ''Junio'',
                    ''Julio'', ''Agosto'', ''Septiembre'', ''Octubre'', ''Noviembre'', ''Diciembre'']"

text \<open>\<open>xs[i]\<close>: positions 0 to n - 1, or -n to -1 read from the end; otherwise
  \<open>IndexError\<close>.\<close>

definition py_index :: "'a list \<Rightarrow> int \<Rightarrow> error + 'a" where
  "py_index xs i =
     (if 0 \<le> i \<and> i < int (length xs) then Inr (xs ! nat i)
      else if i < 0 \<and> - int (length xs) \<le> i then Inr (xs ! nat (int (length xs) + i))
      else Inl IndexError)"

definition agg_mensual :: "int \<times> fila_resultado list \<Rightarrow> error + fila_mensual" where
  "agg_mensual kg =
    (case kg of (k, g) \<Rightarrow>
     (case py_index nombres_meses (k - 1) of Inl e \<Rightarrow> Inl e
     | Inr nombre \<Rightarrow>
       Inr \<lparr>m_mes = k,
            m_produccion_litros = sum_list (map produccion_litros g),
            m_radiacion_Wm2 = media (map radiacion_Wm2 g),
            m_GOR = media (map GOR g),
            m_eficiencia_termica = media (map eficiencia_termica g),
            m_perdida_total = media (map perdida_total g),
            m_temp_agua_C = media (map temp_agua_C g),
            m_temp_ambiente_C = media (map temp_ambiente_C g),
            m_humedad_relativa = media (map humedad_relativa g),
            m_velocidad_viento = media (map velocidad_viento g),
            m_energia_solar = sum_list (map energia_solar g),
            m_energia_util = sum_list (map energia_util g),
            m_energia_evaporacion = sum_list (map energia_evaporacion g),
            m_nombre_mes = nombre\<rparr>))"

text \<open>The monthly row of a group for which \<open>agg_mensual\<close> succeeds.\<close>

definition fila_de_mes :: "int \<times> fila_resultado list \<Rightarrow> fila_mensual" where
  "fila_de_mes kg = projr (agg_mensual kg)"

text \<open>A list of computations that may raise stops at the first exception.\<close>

fun secuencia :: "(error + 'a) list \<Rightarrow> error + 'a list" where
  "secuencia [] = Inr []"
| "secuencia (x # xs) =
     (case x of Inl e \<Rightarrow> Inl e
      | Inr v \<Rightarrow> (case secuencia xs of Inl e \<Rightarrow> Inl e | Inr vs \<Rightarrow> Inr (v # vs)))"

definition resumen_mensual :: "fila_resultado list \<Rightarrow> error + fila_mensual list" where
  "resumen_mensual df_resultados = secuencia (map agg_mensual (groupby mes df_resultados))"

text \<open>The season names; the fourth letter of the autumn label is n with tilde, written
  as its two UTF-8 bytes.\<close>

definition Invierno :: string where "Invierno = ''Invierno''"
definition Primavera :: string where "Primavera = ''Primavera''"
definition Verano :: string where "Verano = ''Verano''"
definition Otonio :: string where "Otonio = ''Oto'' @ [CHR 0xC3, CHR 0xB1] @ ''o''"

text \<open>The column \<open>estacion\<close> of the monthly table: the empty string first, then the four
  \<open>.loc[...isin(...)]\<close> assignments in the order of the source.\<close>

definition estacion_de_mes :: "int \<Rightarrow> string" where
  "estacion_de_mes m =
    (let e0 = [];
         e1 = (if m \<in> {12, 1, 2} then Invierno else e0);
         e2 = (if m \<in> {3, 4, 5} then Primavera else e1);
         e3 = (if m \<in> {6, 7, 8} then Verano else e2);
         e4 = (if m \<in> {9, 10, 11} then Otonio else e3)
     in e4)"

record fila_estacion =
  e_estacion :: string
  e_produccion_litros :: real
  e_GOR :: real
  e_temp_agua_C :: real
  e_temp_ambiente_C :: real
  e_perdida_total :: real
  e_energia_solar :: real
  e_energia_util :: real

definition agg_estacion :: "string \<times> fila_mensual list \<Rightarrow> fila_estacion" where
  "agg_estacion kg =
    (case kg of (k, g) \<Rightarrow>
       \<lparr>e_estacion = k,
        e_produccion_litros = sum_list (map m_produccion_litros g),
        e_GOR = media (map m_GOR g),
        e_temp_agua_C = media (map m_temp_agua_C g),
        e_temp_ambiente_C = media (map m_temp_ambiente_C g),
        e_perdida_total = media (map m_perdida_total g),
        e_energia_solar = sum_list (map m_energia_solar g),
        e_energia_util = sum_list (map m_energia_util g)\<rparr>)"

definition estaciones_base :: "string list" where
  "estaciones_base = [Invierno, Primavera, Verano, Otonio]"

definition nueva_fila :: "string \<Rightarrow> fila_estacion" where
  "nueva_fila estacion =
     \<lparr>e_estacion = estacion, e_produccion_litros = 0, e_GOR = 0, e_temp_agua_C = 0,
      e_temp_ambiente_C = 0, e_perdida_total = 0, e_energia_solar = 0, e_energia_util = 0\<rparr>"

text \<open>The seasonal table: group the monthly table by season, then append a zero row for
  every base season that the grouped table lacks (\<open>estaciones_disponibles\<close> is read once,
  before the loop).\<close>

definition resumen_estacional :: "fila_mensual list \<Rightarrow> fila_estacion list" where
  "resumen_estacional df_mensual =
    (let df_estacion = map agg_estacion (groupby (\<lambda>r. estacion_de_mes (m_mes r)) df_mensual);
         estaciones_disponibles = remdups (map e_estacion df_estacion)
     in df_estacion @
        map nueva_fila (filter (\<lambda>e. e \<notin> set estaciones_disponibles) estaciones_base))"

text \<open>
  \<open>np.polyfit(x, y, 1)\<close> is numpy, not the repository; it is modelled as far as the
  simulator depends on it: numpy raises a \<open>TypeError\<close> for an empty vector \<open>x\<close> and for
  vectors of different lengths. The coefficients it returns otherwise are only drawn.
\<close>

definition np_polyfit :: "real list \<Rightarrow> real list \<Rightarrow> error + unit" where
  "np_polyfit x y =
     (if x = [] then Inl TypeError
      else if length x \<noteq> length y then Inl TypeError
      else Inr ())"

text \<open>
  What \<open>visualizar_resultados\<close> returns. The monthly summary comes first; the trend line
  of the scatter plot (\<open>np.polyfit\<close> on the irradiance and production columns) comes before
  the seasonal summary, and raises on a table without rows; the seasonal summary follows.
  The figures and the files written are not modelled.
\<close>

definition visualizar_resultados ::
  "fila_resultado list \<Rightarrow> error + (fila_mensual list \<times> fila_estacion list)" where
  "visualizar_resultados df_resultados =
    (case resumen_mensual df_resultados of Inl e \<Rightarrow> Inl e
     | Inr df_mensual \<Rightarrow>
        (case np_polyfit (map radiacion_Wm2 df_resultados)
                         (map produccion_litros df_resultados) of
           Inl e \<Rightarrow> Inl e
         | Inr z \<Rightarrow> Inr (df_mensual, resumen_estacional df_mensual)))"

section \<open>Tables as mutable objects in a store\<close>

text \<open>
  A pandas table is a mutable object shared by reference. To state what a method does to
  the table it is handed, tables live in a store: an address is an index into the list of
  allocated tables, and allocation appends. A table is its number of rows and its columns
  in order; a cell is a float, an integer or a date. References held by a running program
  are always valid, so the theorems assume the address is allocated.
\<close>

datatype celda = Flotante real | Entero int | Marca datetime

record DataFrame =
  n_filas :: nat
  columnas :: "(string \<times> celda list) list"

type_synonym almacen = "DataFrame list"

text \<open>\<open>df.copy()\<close>: a new table with the same contents.\<close>

definition df_copy :: "almacen \<Rightarrow> nat \<Rightarrow> nat \<times> almacen" where
  "df_copy s a = (length s, s @ [s ! a])"

text \<open>\<open>df[nombre] = valores\<close>: replaces the column where it exists, appends it otherwise.\<close>

fun poner_columna :: "string \<Rightarrow> celda list \<Rightarrow> (string \<times> celda list) list \<Rightarrow> (string \<times> celda list) list" where
  "poner_columna nombre valores [] = [(nombre, valores)]"
| "poner_columna nombre valores ((k, v) # cs) =
     (if k = nombre then (k, valores) # cs else (k, v) # poner_columna nombre valores cs)"

definition asignar :: "nat \<Rightarrow> string \<Rightarrow> celda list \<Rightarrow> almacen \<Rightarrow> almacen" where
  "asignar a nombre valores s =
     s[a := (s ! a)\<lparr>columnas := poner_columna nombre valores (columnas (s ! a))\<rparr>]"

text \<open>\<open>df[nombre] = x\<close> for a scalar \<open>x\<close>: the scalar in every row.\<close>

definition asignar_escalar :: "nat \<Rightarrow> string \<Rightarrow> real \<Rightarrow> almacen \<Rightarrow> almacen" where
  "asignar_escalar a nombre x s = asignar a nombre (replicate (n_filas (s ! a)) (Flotante x)) s"

text \<open>Reading a column for arithmetic: a missing column raises \<open>KeyError\<close>, a date cell
  in float arithmetic \<open>TypeError\<close>.\<close>

fun numeros :: "celda list \<Rightarrow> error + real list" where
  "numeros [] = Inr []"
| "numeros (c # cs) =
     (case c of
        Marca d \<Rightarrow> Inl TypeError
      | Flotante x \<Rightarrow> (case numeros cs of Inl e \<Rightarrow> Inl e | Inr xs \<Rightarrow> Inr (x # xs))
      | Entero i \<Rightarrow> (case numeros cs of Inl e \<Rightarrow> Inl e | Inr xs \<Rightarrow> Inr (real_of_int i # xs)))"

definition leer :: "almacen \<Rightarrow> nat \<Rightarrow> string \<Rightarrow> error + real list" where
  "leer s a nombre =
     (case map_of (columnas (s ! a)) nombre of
        None \<Rightarrow> Inl (KeyError nombre)
      | Some v \<Rightarrow> numeros v)"

text \<open>
  \<open>calcular_temperatura_sistema\<close> on the store, statement by statement: the copy, the
  three columns of zeros, then every column assignment, each reading its operands from the
  copy in the order Python evaluates them. It returns the address of the copy, or the
  exception, and the store afterwards.
\<close>

definition calcular_temperatura_sistema_mem :: "almacen \<Rightarrow> nat \<Rightarrow> (error + nat) \<times> almacen" where
  "calcular_temperatura_sistema_mem s0 datos_climaticos =
    (case df_copy s0 datos_climaticos of (df, s1) \<Rightarrow>
     (let s2 = asignar_escalar df ''temp_vidrio_K'' 0 s1;
         s3 = asignar_escalar df ''temp_agua_K'' 0 s2;
         s4 = asignar_escalar df ''temp_base_K'' 0 s3;
         factor_temp_agua = 8/100
     in
     case leer s4 df ''temp_ambiente_K'' of Inl e \<Rightarrow> (Inl e, s4) | Inr amb \<Rightarrow>
     (case leer s4 df ''radiacion_Wm2'' of Inl e \<Rightarrow> (Inl e, s4) | Inr rad \<Rightarrow>
     (let s5 = asignar df ''temp_agua_K''
                 (map Flotante (map2 (\<lambda>a r. a + factor_temp_agua * r) amb rad)) s4 in
     case leer s5 df ''temp_ambiente_K'' of Inl e \<Rightarrow> (Inl e, s5) | Inr amb1 \<Rightarrow>
     (case leer s5 df ''temp_agua_K'' of Inl e \<Rightarrow> (Inl e, s5) | Inr agua1 \<Rightarrow>
     (case leer s5 df ''temp_ambiente_K'' of Inl e \<Rightarrow> (Inl e, s5) | Inr amb2 \<Rightarrow>
     (let s6 = asignar df ''temp_vidrio_K''
                 (map Flotante (map2 (+) amb1 (map (\<lambda>x. (3/10) * x) (map2 (-) agua1 amb2)))) s5 in
     case leer s6 df ''temp_agua_K'' of Inl e \<Rightarrow> (Inl e, s6) | Inr agua2 \<Rightarrow>
     (let s7 = asignar df ''temp_base_K'' (map Flotante (map (\<lambda>x. x + 2) agua2)) s6 in
     case leer s7 df ''temp_agua_K'' of Inl e \<Rightarrow> (Inl e, s7) | Inr agua3 \<Rightarrow>
     (let s8 = asignar df ''temp_agua_C'' (map Flotante (map (\<lambda>x. x - 27315/100) agua3)) s7 in
     case leer s8 df ''temp_vidrio_K'' of Inl e \<Rightarrow> (Inl e, s8) | Inr vidrio \<Rightarrow>
     (let s9 = asignar df ''temp_vidrio_C'' (map Flotante (map (\<lambda>x. x - 27315/100) vidrio)) s8 in
     case leer s9 df ''temp_base_K'' of Inl e \<Rightarrow> (Inl e, s9) | Inr base \<Rightarrow>
     (let s10 = asignar df ''temp_base_C'' (map Flotante (map (\<lambda>x. x - 27315/100) base)) s9
      in (Inr df, s10))))))))))))"

text \<open>The table that \<open>generar_datos_anuales\<close> builds from its rows, column by column.\<close>

definition DataFrame_de_clima :: "fila_clima list \<Rightarrow> DataFrame" where
  "DataFrame_de_clima filas =
     \<lparr>n_filas = length filas,
      columnas =
        [(''fecha'', map (\<lambda>r. Marca (fecha r)) filas),
         (''mes'', map (\<lambda>r. Entero (mes r)) filas),
         (''dia'', map (\<lambda>r. Entero (dia r)) filas),
         (''dia_del_a'' @ [CHR 0xC3, CHR 0xB1] @ ''o'', map (\<lambda>r. Entero (dia_del_anio r)) filas),
         (''radiacion_Wm2'', map (\<lambda>r. Flotante (radiacion_Wm2 r)) filas),
         (''temp_ambiente_C'', map (\<lambda>r. Flotante (temp_ambiente_C r)) filas),
         (''temp_ambiente_K'', map (\<lambda>r. Flotante (temp_ambiente_K r)) filas),
         (''humedad_relativa'', map (\<lambda>r. Flotante (humedad_relativa r)) filas),
         (''presion_vapor_Pa'', map (\<lambda>r. Flotante (presion_vapor_Pa r)) filas),
         (''velocidad_viento'', map (\<lambda>r. Flotante (velocidad_viento r)) filas)]\<rparr>"

section \<open>The specification's own words, for comparison with the code\<close>

text \<open>The physical invariant of a configuration, as the data model states it.\<close>

definition config_valida :: "configuracion \<Rightarrow> bool" where
  "config_valida c \<longleftrightarrow>
     0 < cfg_largo (dimensiones c) \<and> 0 < cfg_ancho (dimensiones c) \<and>
     0 < cfg_altura (dimensiones c) \<and>
     0 < cfg_absorptividad (propiedades_termicas c) \<and>
     0 < cfg_cp_agua (propiedades_agua c) \<and>
     0 < cfg_calor_latente_vaporizacion (propiedades_agua c) \<and>
     0 < cfg_temp_inicial (propiedades_agua c) \<and>
     cfg_temp_inicial (propiedades_agua c) < cfg_temp_ebullicion (propiedades_agua c) \<and>
     list_all (\<lambda>kv. 0 < snd kv) (conductividades_termicas c) \<and>
     0 < cfg_horas_radiacion_util (condiciones_operacion c) \<and>
     0 < cfg_masa_agua (condiciones_operacion c) \<and>
     (cfg_hemisferio (condiciones_operacion c) = ''norte'' \<or>
      cfg_hemisferio (condiciones_operacion c) = ''sur'') \<and>
     0 \<le> cfg_variabilidad_diaria (parametros_simulacion c)"


text \<open>The four named irradiance ranges: above 800, 600 to 800, 400 to 600, below 400.\<close>

definition banda_nombrada :: "real \<Rightarrow> real" where
  "banda_nombrada radiacion =
     (if radiacion > 800 then 85/100
      else if radiacion \<ge> 600 then 65/100
      else if radiacion \<ge> 400 then 45/100
      else 25/100)"

text \<open>The month of the Gregorian calendar in which day \<open>i\<close> of 2024 (a leap year, day 0
  being January 1) falls, read off the lengths of the months.\<close>

definition mes_gregoriano_2024 :: "nat \<Rightarrow> int" where
  "mes_gregoriano_2024 i =
     (if i < 31 then 1 else if i < 60 then 2 else if i < 91 then 3 else if i < 121 then 4
      else if i < 152 then 5 else if i < 182 then 6 else if i < 213 then 7
      else if i < 244 then 8 else if i < 274 then 9 else if i < 305 then 10
      else if i < 335 then 11 else 12)"

section \<open>Concrete inputs\<close>



definition config_sur :: configuracion where
  "config_sur =
     cargar_parametros\<lparr>condiciones_operacion := CONDICIONES_OPERACION\<lparr>cfg_hemisferio := ''sur''\<rparr>\<rparr>"

definition config_fria :: configuracion where
  "config_fria =
     cargar_parametros
       \<lparr>condiciones_operacion := CONDICIONES_OPERACION\<lparr>cfg_masa_agua := 4\<rparr>,
        parametros_simulacion :=
          PARAMETROS_SIMULACION\<lparr>cfg_radiacion_base := 100, cfg_amplitud_variacion := 0\<rparr>\<rparr>"

text \<open>A generator whose every draw is 0, with a one-point state.\<close>

definition semilla_nula :: "nat \<Rightarrow> unit" where
  "semilla_nula n = ()"

definition ruido_nulo :: "unit \<Rightarrow> real \<times> unit" where
  "ruido_nulo g = (0, g)"

text \<open>June 1 of the flat-irradiance site on a day without noise: 100 W per square metre,
  3 degrees Celsius, wind 2 m/s.\<close>

definition dia_junio :: fila_clima where
  "dia_junio =
     fila_de_dia ''norte'' (parametros_simulacion config_fria)
       (60 + 20 * cos (fase_mes ''norte'' 6)) 0 0 0 0 \<lparr>year = 2024, month = 6, day = 1\<rparr>"

text \<open>The four divisors of the constructor: some divisor is zero.\<close>

definition divisor_nulo :: "configuracion \<Rightarrow> bool" where
  "divisor_nulo c \<longleftrightarrow>
     (let l = cfg_largo (dimensiones c); a = cfg_ancho (dimensiones c);
          h = cfg_altura (dimensiones c);
          k = dict_get (conductividades_termicas c) (cfg_material_caja (propiedades_termicas c)) 205
      in 1000 * (l * a) = 0 \<or> k * (2 * (l + a) * h) = 0 \<or> (4/100) * (2 * (l + a) * h) = 0 \<or>
         cfg_masa_agua (condiciones_operacion c) = 0)"
text \<open>The parameters and the simulated year of the shipped configuration and of the
  flat-irradiance site, both with the generator whose draws are all 0.\<close>

definition params_defecto :: ParametrosDesalinizador where
  "params_defecto = projr (init_ParametrosDesalinizador cargar_parametros)"

definition tabla_defecto :: "fila_resultado list" where
  "tabla_defecto =
     projr (fst (simular_desalinizador_anual semilla_nula ruido_nulo (Some params_defecto) ()))"

definition params_fria :: ParametrosDesalinizador where
  "params_fria = projr (init_ParametrosDesalinizador config_fria)"

definition tabla_fria :: "fila_resultado list" where
  "tabla_fria =
     projr (fst (simular_desalinizador_anual semilla_nula ruido_nulo (Some params_fria) ()))"

text \<open>A store \<open>s'\<close> that is \<open>s\<close> with exactly one table allocated after it: every table
  of \<open>s\<close> is still there, at its address, with its contents.\<close>

definition extiende :: "almacen \<Rightarrow> almacen \<Rightarrow> bool" where
  "extiende s s' \<longleftrightarrow> length s' = Suc (length s) \<and> take (length s) s' = s"

text \<open>A store holding one table: the climate of the single noise-free June day.\<close>

definition almacen_ejemplo :: almacen where
  "almacen_ejemplo = [DataFrame_de_clima [dia_junio]]"

text \<open>A table of one day: June 1 of the simulated year of the shipped configuration.\<close>

definition tabla_junio :: "fila_resultado list" where
  "tabla_junio = [tabla_defecto ! 152]"

text \<open>The shipped configuration with 2 grams of water, and its parameters.\<close>

definition config_seca :: configuracion where
  "config_seca =
     cargar_parametros\<lparr>condiciones_operacion := CONDICIONES_OPERACION\<lparr>cfg_masa_agua := 2/1000\<rparr>\<rparr>"

definition params_seca :: ParametrosDesalinizador where
  "params_seca = projr (init_ParametrosDesalinizador config_seca)"

section \<open>Shared lemmas\<close>

lemmas cfg_defs = cargar_parametros_def DIMENSIONES_def PROPIEDADES_TERMICAS_def
  PROPIEDADES_AGUA_def CONDUCTIVIDADES_TERMICAS_def CONDICIONES_OPERACION_def
  PARAMETROS_SIMULACION_def


lemma init_exito:
  "\<not> divisor_nulo c \<Longrightarrow> \<exists>p. init_ParametrosDesalinizador c = Inr p"
  unfolding init_ParametrosDesalinizador_def divisor_nulo_def Let_def py_div_def
  by (auto split: if_splits)

text \<open>What a successfully constructed parameter object holds.\<close>

lemma init_campos:
  assumes "init_ParametrosDesalinizador c = Inr p"
  shows "masa_agua p = cfg_masa_agua (condiciones_operacion c)"
    and "calor_latente_vaporizacion p = cfg_calor_latente_vaporizacion (propiedades_agua c)"
    and "cp_agua p = cfg_cp_agua (propiedades_agua c)"
    and "temp_inicial p = cfg_temp_inicial (propiedades_agua c)"
    and "temp_ebullicion p = cfg_temp_ebullicion (propiedades_agua c)"
    and "delta_T p = cfg_temp_ebullicion (propiedades_agua c) - cfg_temp_inicial (propiedades_agua c)"
    and "factores_eficiencia p = \<lparr>alto = 85/100, medio = 65/100, bajo = 45/100, minimo = 25/100\<rparr>"
    and "area_captacion p = cfg_largo (dimensiones c) * cfg_ancho (dimensiones c)"
    and "area_tapa p = cfg_largo (dimensiones c) * cfg_ancho (dimensiones c)"
    and "area_paredes p = 2 * (cfg_largo (dimensiones c) + cfg_ancho (dimensiones c)) * cfg_altura (dimensiones c)"
    and "area_total p = area_tapa p + area_tapa p + area_paredes p"
    and "absorptividad p = cfg_absorptividad (propiedades_termicas c)"
    and "cos_angulo p = cos (radians (cfg_angulo_incidencia (propiedades_termicas c)))"
    and "emisividad p = 95/100" and "sigma p = 567 / 10 ^ 10"
    and "segundos_radiacion_util p = cfg_horas_radiacion_util (condiciones_operacion c) * 3600"
    and "h_conveccion_natural p = 5"
    and "R_conduccion p = (25/10000) / (dict_get (conductividades_termicas c) (cfg_material_caja (propiedades_termicas c)) 205 * area_paredes p)"
    and "R_aislamiento p = (2/100) / ((4/100) * area_paredes p)"
    and "hemisferio p = cfg_hemisferio (condiciones_operacion c)"
    and "param_sim p = parametros_simulacion c"
    and "config p = c"
    and "altura p = cfg_altura (dimensiones c)"
  using assms
  unfolding init_ParametrosDesalinizador_def Let_def py_div_def
  by (auto split: if_splits)


lemma dn_defecto: "\<not> divisor_nulo cargar_parametros"
  by (simp add: divisor_nulo_def cfg_defs dict_get_def Let_def)

lemma init_defecto:
  "init_ParametrosDesalinizador cargar_parametros =
     Inr (projr (init_ParametrosDesalinizador cargar_parametros))"
  using init_exito[OF dn_defecto] by auto

lemma factor_temp_cotas: "1/2 \<le> factor_temp t \<and> factor_temp t \<le> 12/10"
  by (simp add: factor_temp_def np_clip_def)

subsection \<open>The calendar of 2024\<close>

lemma length_fechas: "length fechas = 365"
  by (simp add: fechas_def)

lemma mas_dias_add: "mas_dias d (a + b) = mas_dias (mas_dias d a) b"
  by (induction b) simp_all

lemma dentro_del_mes:
  "day d + k \<le> dias_en_mes (year d) (month d) \<Longrightarrow> mas_dias d k = d\<lparr>day := day d + k\<rparr>"
proof (induction k)
  case 0
  show ?case by simp
next
  case (Suc k)
  then have "mas_dias d k = d\<lparr>day := day d + k\<rparr>" by simp
  with Suc.prems show ?case by (simp add: dia_siguiente_def)
qed

lemma cambio_de_mes:
  assumes "day d = 1" "month d < 12" "dias_en_mes (year d) (month d) = Suc n"
  shows "mas_dias d (Suc n) = d\<lparr>month := month d + 1, day := 1\<rparr>"
proof -
  have "mas_dias d n = d\<lparr>day := day d + n\<rparr>"
    using assms by (intro dentro_del_mes) simp
  then show ?thesis using assms by (simp add: dia_siguiente_def)
qed

lemma primero_siguiente:
  "m < 12 \<Longrightarrow> dias_en_mes 2024 m = Suc n \<Longrightarrow> mas_dias (primero m) (Suc n) = primero (m + 1)"
  using cambio_de_mes[of "primero m" n] by (simp add: primero_def)

lemma inicios:
  "mas_dias fecha_inicio 0 = primero 1"
  "mas_dias fecha_inicio 31 = primero 2"
  "mas_dias fecha_inicio 60 = primero 3"
  "mas_dias fecha_inicio 91 = primero 4"
  "mas_dias fecha_inicio 121 = primero 5"
  "mas_dias fecha_inicio 152 = primero 6"
  "mas_dias fecha_inicio 182 = primero 7"
  "mas_dias fecha_inicio 213 = primero 8"
  "mas_dias fecha_inicio 244 = primero 9"
  "mas_dias fecha_inicio 274 = primero 10"
  "mas_dias fecha_inicio 305 = primero 11"
  "mas_dias fecha_inicio 335 = primero 12"
proof -
  show 1: "mas_dias fecha_inicio 0 = primero 1" by (simp add: fecha_inicio_def primero_def)
  have s: "\<And>a m n. mas_dias fecha_inicio a = primero m \<Longrightarrow> m < 12 \<Longrightarrow> dias_en_mes 2024 m = Suc n
         \<Longrightarrow> mas_dias fecha_inicio (a + Suc n) = primero (m + 1)"
    by (simp only: mas_dias_add primero_siguiente)
  show 2: "mas_dias fecha_inicio 31 = primero 2"
    using s[OF 1, of 30] by (simp add: dias_en_mes_def es_bisiesto_def numeral_2_eq_2)
  show 3: "mas_dias fecha_inicio 60 = primero 3"
    using s[OF 2, of 28] by (simp add: dias_en_mes_def es_bisiesto_def)
  show 4: "mas_dias fecha_inicio 91 = primero 4"
    using s[OF 3, of 30] by (simp add: dias_en_mes_def es_bisiesto_def)
  show 5: "mas_dias fecha_inicio 121 = primero 5"
    using s[OF 4, of 29] by (simp add: dias_en_mes_def es_bisiesto_def)
  show 6: "mas_dias fecha_inicio 152 = primero 6"
    using s[OF 5, of 30] by (simp add: dias_en_mes_def es_bisiesto_def)
  show 7: "mas_dias fecha_inicio 182 = primero 7"
    using s[OF 6, of 29] by (simp add: dias_en_mes_def es_bisiesto_def)
  show 8: "mas_dias fecha_inicio 213 = primero 8"
    using s[OF 7, of 30] by (simp add: dias_en_mes_def es_bisiesto_def)
  show 9: "mas_dias fecha_inicio 244 = primero 9"
    using s[OF 8, of 30] by (simp add: dias_en_mes_def es_bisiesto_def)
  show 10: "mas_dias fecha_inicio 274 = primero 10"
    using s[OF 9, of 29] by (simp add: dias_en_mes_def es_bisiesto_def)
  show 11: "mas_dias fecha_inicio 305 = primero 11"
    using s[OF 10, of 30] by (simp add: dias_en_mes_def es_bisiesto_def)
  show 12: "mas_dias fecha_inicio 335 = primero 12"
    using s[OF 11, of 29] by (simp add: dias_en_mes_def es_bisiesto_def)
qed

lemma dia_del_mes:
  assumes "mas_dias fecha_inicio a = primero m" "k < dias_en_mes 2024 m"
  shows "mas_dias fecha_inicio (a + k) = \<lparr>year = 2024, month = m, day = k + 1\<rparr>"
proof -
  have "mas_dias (primero m) k = (primero m)\<lparr>day := day (primero m) + k\<rparr>"
    using assms(2) by (intro dentro_del_mes) (simp add: primero_def)
  then show ?thesis by (simp add: mas_dias_add assms(1) primero_def)
qed

lemma fecha_de_indice:
  assumes "i < 365"
  shows "mas_dias fecha_inicio i =
          \<lparr>year = 2024, month = nat (mes_gregoriano_2024 i),
           day = i + 1 - (if i < 31 then 0 else if i < 60 then 31 else if i < 91 then 60
                 else if i < 121 then 91 else if i < 152 then 121 else if i < 182 then 152
                 else if i < 213 then 182 else if i < 244 then 213 else if i < 274 then 244
                 else if i < 305 then 274 else if i < 335 then 305 else 335)\<rparr>"
proof -
  have r: "mas_dias fecha_inicio i = \<lparr>year = 2024, month = m, day = i + 1 - a\<rparr>"
    if "mas_dias fecha_inicio a = primero m" "a \<le> i" "i - a < dias_en_mes 2024 m" for a m
    using dia_del_mes[OF that(1) that(3)] that(2) by simp
  consider "i < 31" | "31 \<le> i" "i < 60" | "60 \<le> i" "i < 91" | "91 \<le> i" "i < 121"
    | "121 \<le> i" "i < 152" | "152 \<le> i" "i < 182" | "182 \<le> i" "i < 213"
    | "213 \<le> i" "i < 244" | "244 \<le> i" "i < 274" | "274 \<le> i" "i < 305"
    | "305 \<le> i" "i < 335" | "335 \<le> i" "i < 365"
    using assms by linarith
  then show ?thesis
  proof cases
    case 1 then show ?thesis using r[OF inicios(1)]
      by (simp add: mes_gregoriano_2024_def dias_en_mes_def es_bisiesto_def)
  next
    case 2 then show ?thesis using r[OF inicios(2)]
      by (simp add: mes_gregoriano_2024_def dias_en_mes_def es_bisiesto_def)
  next
    case 3 then show ?thesis using r[OF inicios(3)]
      by (simp add: mes_gregoriano_2024_def dias_en_mes_def es_bisiesto_def)
  next
    case 4 then show ?thesis using r[OF inicios(4)]
      by (simp add: mes_gregoriano_2024_def dias_en_mes_def es_bisiesto_def)
  next
    case 5 then show ?thesis using r[OF inicios(5)]
      by (simp add: mes_gregoriano_2024_def dias_en_mes_def es_bisiesto_def)
  next
    case 6 then show ?thesis using r[OF inicios(6)]
      by (simp add: mes_gregoriano_2024_def dias_en_mes_def es_bisiesto_def)
  next
    case 7 then show ?thesis using r[OF inicios(7)]
      by (simp add: mes_gregoriano_2024_def dias_en_mes_def es_bisiesto_def)
  next
    case 8 then show ?thesis using r[OF inicios(8)]
      by (simp add: mes_gregoriano_2024_def dias_en_mes_def es_bisiesto_def)
  next
    case 9 then show ?thesis using r[OF inicios(9)]
      by (simp add: mes_gregoriano_2024_def dias_en_mes_def es_bisiesto_def)
  next
    case 10 then show ?thesis using r[OF inicios(10)]
      by (simp add: mes_gregoriano_2024_def dias_en_mes_def es_bisiesto_def)
  next
    case 11 then show ?thesis using r[OF inicios(11)]
      by (simp add: mes_gregoriano_2024_def dias_en_mes_def es_bisiesto_def)
  next
    case 12 then show ?thesis using r[OF inicios(12)]
      by (simp add: mes_gregoriano_2024_def dias_en_mes_def es_bisiesto_def)
  qed
qed

lemma mes_de_indice:
  "i < 365 \<Longrightarrow> int (month (fechas ! i)) = mes_gregoriano_2024 i"
  by (simp add: fechas_def fecha_de_indice mes_gregoriano_2024_def)

lemma mes_gregoriano_rango: "1 \<le> mes_gregoriano_2024 i \<and> mes_gregoriano_2024 i \<le> 12"
  by (simp add: mes_gregoriano_2024_def)

subsection \<open>The climate generator\<close>

lemma normales_length: "length (fst (normales gauss g n)) = n"
proof (induction n arbitrary: g)
  case 0
  show ?case by simp
next
  case (Suc n)
  obtain z g1 where a: "gauss g = (z, g1)" by (cases "gauss g")
  obtain zs g2 where b: "normales gauss g1 n = (zs, g2)" by (cases "normales gauss g1 n")
  from Suc[of g1] b have "length zs = n" by simp
  with a b show ?case by simp
qed

lemma np_random_normal_ok:
  assumes "0 \<le> scale"
  shows "\<exists>zs g'. np_random_normal gauss loc scale n g = (Inr zs, g') \<and> length zs = n"
proof -
  obtain zs g' where z: "normales gauss g n = (zs, g')" by (cases "normales gauss g n")
  have "length zs = n" using normales_length[of gauss g n] z by simp
  then show ?thesis using assms z by (simp add: np_random_normal_def)
qed

lemma np_random_normal_neg:
  "scale < 0 \<Longrightarrow> np_random_normal gauss loc scale n g = (Inl (ValueError ''scale < 0''), g)"
  by (simp add: np_random_normal_def)

lemma generar_otro_hemisferio:
  assumes "lower (mc_hemisferio self) \<noteq> ''norte''" "0 \<le> cfg_variabilidad_diaria (mc_param_sim self)"
  shows "fst (generar_datos_anuales gauss self g) = Inl (UnboundLocalError ''humedad_base'')"
proof -
  obtain v1 g1 where 1: "np_random_normal gauss 0 (cfg_variabilidad_diaria (mc_param_sim self)) (length fechas) g = (Inr v1, g1)"
    using np_random_normal_ok[OF assms(2), of gauss 0 "length fechas" g] by blast
  obtain v2 g2 where 2: "np_random_normal gauss 0 3 (length fechas) g1 = (Inr v2, g2)"
    using np_random_normal_ok[of 3 gauss 0 "length fechas" g1] by auto
  show ?thesis
    unfolding generar_datos_anuales_def Let_def using assms(1) by (simp add: 1 2)
qed

lemma generar_norte:
  assumes "lower (mc_hemisferio self) = ''norte''" "0 \<le> cfg_variabilidad_diaria (mc_param_sim self)"
  shows "\<exists>v1 v2 v3 v4 g'. generar_datos_anuales gauss self g =
           (Inr (map (\<lambda>i. fila_de_dia (mc_hemisferio self) (mc_param_sim self)
                        (60 + 20 * cos (fase_mes (mc_hemisferio self) (int (month (fechas ! i)))))
                        (v1 ! i) (v2 ! i) (v3 ! i) (v4 ! i) (fechas ! i)) [0..<365]), g')"
proof -
  obtain v1 g1 where 1: "np_random_normal gauss 0 (cfg_variabilidad_diaria (mc_param_sim self)) (length fechas) g = (Inr v1, g1)"
    using np_random_normal_ok[OF assms(2), of gauss 0 "length fechas" g] by blast
  obtain v2 g2 where 2: "np_random_normal gauss 0 3 (length fechas) g1 = (Inr v2, g2)"
    using np_random_normal_ok[of 3 gauss 0 "length fechas" g1] by auto
  obtain v3 g3 where 3: "np_random_normal gauss 0 10 (length fechas) g2 = (Inr v3, g3)"
    using np_random_normal_ok[of 10 gauss 0 "length fechas" g2] by auto
  obtain v4 g4 where 4: "np_random_normal gauss 0 (8/10) (length fechas) g3 = (Inr v4, g4)"
    using np_random_normal_ok[of "8/10" gauss 0 "length fechas" g3] by auto
  show ?thesis
    unfolding generar_datos_anuales_def Let_def
    by (simp only: 1[unfolded length_fechas] 2[unfolded length_fechas]
          3[unfolded length_fechas] 4[unfolded length_fechas] assms(1) prod.case sum.case
          if_False not_not length_fechas refl simp_thms) (intro exI, rule refl)
qed

lemma generar_exito:
  assumes "generar_datos_anuales gauss self g = (Inr df, g')"
  shows "length df = 365 \<and>
         (\<forall>i<365. \<exists>h a b c d. df ! i =
             fila_de_dia (mc_hemisferio self) (mc_param_sim self) h a b c d (fechas ! i))"
proof -
  have n: "lower (mc_hemisferio self) = ''norte''"
    using assms unfolding generar_datos_anuales_def Let_def
    by (auto split: prod.splits sum.splits if_splits)
  have v: "0 \<le> cfg_variabilidad_diaria (mc_param_sim self)"
  proof (rule ccontr)
    assume "\<not> ?thesis"
    then have "cfg_variabilidad_diaria (mc_param_sim self) < 0" by simp
    then show False using assms unfolding generar_datos_anuales_def Let_def
      by (simp add: np_random_normal_neg)
  qed
  from generar_norte[OF n v, of gauss g] obtain v1 v2 v3 v4 g'' where
    "generar_datos_anuales gauss self g =
           (Inr (map (\<lambda>i. fila_de_dia (mc_hemisferio self) (mc_param_sim self)
                        (60 + 20 * cos (fase_mes (mc_hemisferio self) (int (month (fechas ! i)))))
                        (v1 ! i) (v2 ! i) (v3 ! i) (v4 ! i) (fechas ! i)) [0..<365]), g'')"
    by blast
  with assms have "df = map (\<lambda>i. fila_de_dia (mc_hemisferio self) (mc_param_sim self)
                        (60 + 20 * cos (fase_mes (mc_hemisferio self) (int (month (fechas ! i)))))
                        (v1 ! i) (v2 ! i) (v3 ! i) (v4 ! i) (fechas ! i)) [0..<365]"
    by simp
  then show ?thesis by simp (intro allI impI exI, rule refl)
qed

lemma fila_de_dia_campos:
  fixes hem ps h a b c d f
  defines "r \<equiv> fila_de_dia hem ps h a b c d f"
  shows "fecha r = f" and "mes r = int (month f)" and "dia r = int (day f)"
    and "dia_del_anio r = dias_entre f fecha_inicio"
    and "100 \<le> radiacion_Wm2 r" and "radiacion_Wm2 r \<le> 950"
    and "30 \<le> humedad_relativa r" and "humedad_relativa r \<le> 95"
    and "1/2 \<le> velocidad_viento r"
    and "temp_ambiente_K r = temp_ambiente_C r + 27315/100"
  unfolding r_def fila_de_dia_def Let_def
  by (simp_all add: np_clip_def)

subsection \<open>Rows and columns of the thermal model\<close>

lemmas fila_defs = fila_clima.defs fila_temp.defs fila_perdidas.defs fila_resultado.defs

lemma sel_temp:
  "temp_vidrio_K (fila_clima.extend r (fila_temp.fields a b c d e f)) = a"
  "temp_agua_K (fila_clima.extend r (fila_temp.fields a b c d e f)) = b"
  "temp_base_K (fila_clima.extend r (fila_temp.fields a b c d e f)) = c"
  "temp_agua_C (fila_clima.extend r (fila_temp.fields a b c d e f)) = d"
  "temp_vidrio_C (fila_clima.extend r (fila_temp.fields a b c d e f)) = e"
  "temp_base_C (fila_clima.extend r (fila_temp.fields a b c d e f)) = f"
  "fecha (fila_clima.extend r x) = fecha r"
  "mes (fila_clima.extend r x) = mes r"
  "radiacion_Wm2 (fila_clima.extend r x) = radiacion_Wm2 r"
  "temp_ambiente_C (fila_clima.extend r x) = temp_ambiente_C r"
  "temp_ambiente_K (fila_clima.extend r x) = temp_ambiente_K r"
  "velocidad_viento (fila_clima.extend r x) = velocidad_viento r"
  by (simp_all add: fila_defs)

lemma sel_perdidas:
  "h_conv_ext (fila_temp.extend r (fila_perdidas.fields a b c d e f g)) = a"
  "perdida_conv_vidrio (fila_temp.extend r (fila_perdidas.fields a b c d e f g)) = b"
  "temp_cielo_K (fila_temp.extend r (fila_perdidas.fields a b c d e f g)) = c"
  "perdida_rad_vidrio (fila_temp.extend r (fila_perdidas.fields a b c d e f g)) = d"
  "perdida_conv_paredes (fila_temp.extend r (fila_perdidas.fields a b c d e f g)) = e"
  "perdida_conduccion (fila_temp.extend r (fila_perdidas.fields a b c d e f g)) = f"
  "perdida_total (fila_temp.extend r (fila_perdidas.fields a b c d e f g)) = g"
  "fecha (fila_temp.extend r x) = fecha r"
  "mes (fila_temp.extend r x) = mes r"
  "radiacion_Wm2 (fila_temp.extend r x) = radiacion_Wm2 r"
  "temp_ambiente_C (fila_temp.extend r x) = temp_ambiente_C r"
  "temp_ambiente_K (fila_temp.extend r x) = temp_ambiente_K r"
  "velocidad_viento (fila_temp.extend r x) = velocidad_viento r"
  "temp_agua_K (fila_temp.extend r x) = temp_agua_K r"
  "temp_vidrio_K (fila_temp.extend r x) = temp_vidrio_K r"
  by (simp_all add: fila_defs)

lemma sel_resultado:
  "energia_solar (fila_perdidas.extend r (fila_resultado.fields a b c d e f g h i)) = a"
  "energia_perdida (fila_perdidas.extend r (fila_resultado.fields a b c d e f g h i)) = b"
  "energia_util (fila_perdidas.extend r (fila_resultado.fields a b c d e f g h i)) = c"
  "energia_calentamiento (fila_perdidas.extend r (fila_resultado.fields a b c d e f g h i)) = d"
  "energia_evaporacion (fila_perdidas.extend r (fila_resultado.fields a b c d e f g h i)) = e"
  "masa_evaporada (fila_perdidas.extend r (fila_resultado.fields a b c d e f g h i)) = f"
  "produccion_litros (fila_perdidas.extend r (fila_resultado.fields a b c d e f g h i)) = g"
  "GOR (fila_perdidas.extend r (fila_resultado.fields a b c d e f g h i)) = h"
  "eficiencia_termica (fila_perdidas.extend r (fila_resultado.fields a b c d e f g h i)) = i"
  "fecha (fila_perdidas.extend r x) = fecha r"
  "mes (fila_perdidas.extend r x) = mes r"
  "radiacion_Wm2 (fila_perdidas.extend r x) = radiacion_Wm2 r"
  "temp_ambiente_C (fila_perdidas.extend r x) = temp_ambiente_C r"
  "temp_ambiente_K (fila_perdidas.extend r x) = temp_ambiente_K r"
  "velocidad_viento (fila_perdidas.extend r x) = velocidad_viento r"
  "temp_agua_K (fila_perdidas.extend r x) = temp_agua_K r"
  "temp_vidrio_K (fila_perdidas.extend r x) = temp_vidrio_K r"
  "perdida_total (fila_perdidas.extend r x) = perdida_total r"
  by (simp_all add: fila_defs)

text \<open>The columns of each table in terms of the table it was computed from.\<close>

lemma temp_cols:
  fixes r
  defines "d \<equiv> fila_temperatura r"
  shows "temp_agua_K d = temp_ambiente_K r + (8/100) * radiacion_Wm2 r"
    and "temp_vidrio_K d = temp_ambiente_K r + (3/10) * (temp_agua_K d - temp_ambiente_K r)"
    and "fecha d = fecha r" and "mes d = mes r"
    and "radiacion_Wm2 d = radiacion_Wm2 r" and "temp_ambiente_C d = temp_ambiente_C r"
    and "temp_ambiente_K d = temp_ambiente_K r" and "velocidad_viento d = velocidad_viento r"
  unfolding d_def fila_temperatura_def Let_def
  by (simp_all only: sel_temp)

lemma perdidas_cols:
  fixes p rt r
  defines "d \<equiv> fila_perdidas_termicas p rt r"
  shows "h_conv_ext d = calcular_coef_conveccion_viento (velocidad_viento r)"
    and "perdida_conv_vidrio d = (15/100) * h_conv_ext d * area_tapa p * (temp_vidrio_K r - temp_ambiente_K r)"
    and "temp_cielo_K d = temp_ambiente_K r - 6"
    and "perdida_rad_vidrio d = (15/100) * emisividad p * sigma p * area_tapa p *
                        (temp_vidrio_K r ^ 4 - temp_cielo_K d ^ 4)"
    and "perdida_conv_paredes d = (15/100) * h_conv_ext d * area_paredes p * (temp_agua_K r - temp_ambiente_K r)"
    and "perdida_conduccion d = (15/100) * (temp_agua_K r - temp_ambiente_K r) / rt"
    and "perdida_total d = perdida_conv_vidrio d + perdida_rad_vidrio d + perdida_conv_paredes d + perdida_conduccion d"
    and "fecha d = fecha r" and "mes d = mes r"
    and "radiacion_Wm2 d = radiacion_Wm2 r" and "temp_ambiente_C d = temp_ambiente_C r"
    and "temp_ambiente_K d = temp_ambiente_K r" and "velocidad_viento d = velocidad_viento r"
    and "temp_agua_K d = temp_agua_K r" and "temp_vidrio_K d = temp_vidrio_K r"
  unfolding d_def fila_perdidas_termicas_def Let_def
  by (simp_all only: sel_perdidas)

lemma masa_cols:
  fixes p r
  defines "d \<equiv> fila_masa_evaporada p r"
  shows "energia_solar d = radiacion_Wm2 r * cos_angulo p * absorptividad p * area_captacion p * segundos_radiacion_util p"
    and "energia_perdida d = perdida_total r * segundos_radiacion_util p"
    and "energia_util d = max 0 (energia_solar d - min (energia_perdida d) ((65/100) * energia_solar d))"
    and "energia_calentamiento d = masa_agua p * cp_agua p * (temp_agua_K r - temp_inicial p)"
    and "energia_evaporacion d = max 0 (energia_util d - energia_calentamiento d)"
    and "masa_evaporada d =
          (if min (energia_evaporacion d / calor_latente_vaporizacion p *
                         eficiencia_sistema p (radiacion_Wm2 r) (temp_ambiente_C r))
                  (masa_agua p * (25/100)) < 1/1000 then 0
           else min (energia_evaporacion d / calor_latente_vaporizacion p *
                         eficiencia_sistema p (radiacion_Wm2 r) (temp_ambiente_C r))
                  (masa_agua p * (25/100)))"
    and "produccion_litros d = masa_evaporada d"
    and "GOR d = (if energia_solar d > 0 then energia_evaporacion d / energia_solar d else 0)"
    and "eficiencia_termica d = (if energia_solar d > 0 then energia_util d / energia_solar d else 0)"
    and "fecha d = fecha r" and "mes d = mes r"
    and "radiacion_Wm2 d = radiacion_Wm2 r" and "temp_ambiente_C d = temp_ambiente_C r"
    and "temp_ambiente_K d = temp_ambiente_K r" and "velocidad_viento d = velocidad_viento r"
    and "temp_agua_K d = temp_agua_K r" and "perdida_total d = perdida_total r"
  unfolding d_def fila_masa_evaporada_def Let_def
  by (simp_all only: sel_resultado)

lemma dict_get_pos:
  assumes "list_all (\<lambda>kv. 0 < snd kv) d"
  shows "0 < dict_get d k 205"
proof (cases "map_of d k")
  case None
  then show ?thesis by (simp add: dict_get_def)
next
  case (Some v)
  then have "(k, v) \<in> set d" by (rule map_of_SomeD)
  with assms have "0 < v" by (auto simp: list_all_iff)
  with Some show ?thesis by (simp add: dict_get_def)
qed

lemma valida_divisores: "config_valida c \<Longrightarrow> \<not> divisor_nulo c"
proof -
  assume v: "config_valida c"
  then have k: "0 < dict_get (conductividades_termicas c) (cfg_material_caja (propiedades_termicas c)) 205"
    by (intro dict_get_pos) (simp add: config_valida_def)
  from v have "0 < cfg_largo (dimensiones c)" "0 < cfg_ancho (dimensiones c)"
    "0 < cfg_altura (dimensiones c)" "0 < cfg_masa_agua (condiciones_operacion c)"
    by (simp_all add: config_valida_def)
  with k show ?thesis by (simp add: divisor_nulo_def Let_def)
qed

lemma resistencias_validas:
  assumes v: "config_valida c" and p: "init_ParametrosDesalinizador c = Inr p"
  shows "\<exists>rs. calcular_resistencias_totales p = Inr rs \<and> 0 < R_total rs"
proof -
  note f = init_campos[OF p]
  have k: "0 < dict_get (conductividades_termicas c) (cfg_material_caja (propiedades_termicas c)) 205"
    using v by (intro dict_get_pos) (simp add: config_valida_def)
  from v have d: "0 < cfg_largo (dimensiones c)" "0 < cfg_ancho (dimensiones c)"
    "0 < cfg_altura (dimensiones c)"
    by (simp_all add: config_valida_def)
  have at: "0 < area_tapa p" using d by (simp add: f)
  have ap: "0 < area_paredes p" using d by (simp add: f)
  have atot: "0 < area_total p" using at ap by (simp add: f(11))
  have rc: "0 < R_conduccion p" unfolding f(18) using k ap by simp
  have ra: "0 < R_aislamiento p" unfolding f(19) using ap by simp
  have rp: "0 < R_conduccion p + R_aislamiento p" using rc ra by simp
  have rv: "0 < (1/100) / (1 * area_tapa p)" using at by simp
  have g: "0 < 1 / (R_conduccion p + R_aislamiento p) + 1 / ((1/100) / (1 * area_tapa p))"
    using rp rv by (intro add_pos_pos) simp_all
  have rce: "0 < 1 / (h_conveccion_natural p * area_total p)" using atot by (simp add: f(17))
  have tot: "0 < 1 / (1 / (R_conduccion p + R_aislamiento p) + 1 / ((1/100) / (1 * area_tapa p)))
             + 1 / (h_conveccion_natural p * area_total p)"
    using g rce by (intro add_pos_pos) simp_all
  have nz: "1 * area_tapa p \<noteq> 0" "h_conveccion_natural p * area_total p \<noteq> 0"
    "R_conduccion p + R_aislamiento p \<noteq> 0" "(1/100) / (1 * area_tapa p) \<noteq> 0"
    "1 / (R_conduccion p + R_aislamiento p) + 1 / ((1/100) / (1 * area_tapa p)) \<noteq> 0"
    using at atot rp rv g by (simp_all add: f(17))
  have "calcular_resistencias_totales p =
      Inr \<lparr>R_paredes = R_conduccion p + R_aislamiento p,
           R_vidrio = (1/100) / (1 * area_tapa p),
           R_conv_ext = 1 / (h_conveccion_natural p * area_total p),
           R_total = 1 / (1 / (R_conduccion p + R_aislamiento p) + 1 / ((1/100) / (1 * area_tapa p)))
             + 1 / (h_conveccion_natural p * area_total p)\<rparr>"
    unfolding calcular_resistencias_totales_def Let_def py_div_def
    by (simp only: nz if_True sum.case not_False_eq_True)
  with tot show ?thesis by simp
qed

subsection \<open>The annual simulation\<close>

lemma simular_exito:
  assumes "simular_desalinizador_anual semilla gauss (Some p) g = (Inr tabla, g')"
  shows "\<exists>rs df. calcular_resistencias_totales p = Inr rs \<and>
           generar_datos_anuales gauss (fst (init_ModeloClimatico semilla p g)) (semilla 42) = (Inr df, g') \<and>
           tabla = map (fila_dia p (R_total rs * 8)) df"
  using assms
  unfolding simular_desalinizador_anual_def init_ModeloClimatico_def Let_def
    calcular_temperatura_sistema_def calcular_perdidas_termicas_def calcular_masa_evaporada_def
    fila_dia_def
  by (auto split: prod.splits sum.splits simp: comp_def)

lemma simular_norte:
  assumes "lower (hemisferio p) = ''norte''" "0 \<le> cfg_variabilidad_diaria (param_sim p)"
    "calcular_resistencias_totales p = Inr rs"
  shows "\<exists>tabla g'. simular_desalinizador_anual semilla gauss (Some p) g = (Inr tabla, g')"
proof -
  let ?self = "fst (init_ModeloClimatico semilla p g)"
  have h: "mc_hemisferio ?self = hemisferio p" "mc_param_sim ?self = param_sim p"
    by (simp_all add: init_ModeloClimatico_def)
  from generar_norte[of ?self gauss "semilla 42"] assms(1,2) h
  obtain df g' where "generar_datos_anuales gauss ?self (semilla 42) = (Inr df, g')"
    by auto
  then show ?thesis
    unfolding simular_desalinizador_anual_def Let_def calcular_perdidas_termicas_def
    by (simp add: init_ModeloClimatico_def assms(3))
qed

lemma simular_otro_hemisferio:
  assumes "lower (hemisferio p) \<noteq> ''norte''" "0 \<le> cfg_variabilidad_diaria (param_sim p)"
  shows "fst (simular_desalinizador_anual semilla gauss (Some p) g) =
           Inl (UnboundLocalError ''humedad_base'')"
proof -
  let ?self = "fst (init_ModeloClimatico semilla p g)"
  have h: "mc_hemisferio ?self = hemisferio p" "mc_param_sim ?self = param_sim p"
    by (simp_all add: init_ModeloClimatico_def)
  from generar_otro_hemisferio[of ?self gauss "semilla 42"] assms h
  have "fst (generar_datos_anuales gauss ?self (semilla 42)) = Inl (UnboundLocalError ''humedad_base'')"
    by simp
  then show ?thesis
    unfolding simular_desalinizador_anual_def
    by (auto simp add: init_ModeloClimatico_def split: prod.splits sum.splits)
qed

lemma lower_sur: "lower ''sur'' \<noteq> ''norte''"
  by (simp add: lower_def)

lemma lower_norte: "lower ''norte'' = ''norte''"
  by (simp add: lower_def lower_char_def)

lemma valida_sur: "config_valida config_sur"
  by (simp add: config_valida_def config_sur_def cfg_defs)

lemma valida_defecto: "config_valida cargar_parametros"
  by (simp add: config_valida_def cfg_defs)

lemma init_sur:
  "init_ParametrosDesalinizador config_sur = Inr (projr (init_ParametrosDesalinizador config_sur))"
  using init_exito[OF valida_divisores[OF valida_sur]] by auto

lemma campos_sur:
  "cfg_hemisferio (condiciones_operacion config_sur) = ''sur''"
  "cfg_variabilidad_diaria (parametros_simulacion config_sur) = 100"
  by (simp_all add: config_sur_def cfg_defs)

text \<open>For the hemisphere 'norte' the table has its 365 rows, one per consecutive day from
  January 1, 2024, with the month of the calendar.\<close>

lemma calendario_simulacion:
  assumes "simular_desalinizador_anual semilla gauss (Some p) g = (Inr tabla, g')"
  shows "length tabla = 365 \<and>
         (\<forall>i<365. fecha (tabla ! i) = mas_dias fecha_inicio i \<and>
                   mes (tabla ! i) = mes_gregoriano_2024 i \<and>
                   1 \<le> mes (tabla ! i) \<and> mes (tabla ! i) \<le> 12)"
proof -
  from simular_exito[OF assms] obtain rs :: resistencias and df where
    df: "generar_datos_anuales gauss (fst (init_ModeloClimatico semilla p g)) (semilla 42) = (Inr df, g')"
    and t: "tabla = map (fila_dia p (R_total rs * 8)) df"
    by blast
  from generar_exito[OF df] have l: "length df = 365"
    and r: "\<forall>i<365. \<exists>h a b c d. df ! i =
             fila_de_dia (mc_hemisferio (fst (init_ModeloClimatico semilla p g)))
               (mc_param_sim (fst (init_ModeloClimatico semilla p g))) h a b c d (fechas ! i)"
    by simp_all
  have "fecha (tabla ! i) = mas_dias fecha_inicio i \<and>
                   mes (tabla ! i) = mes_gregoriano_2024 i \<and>
                   1 \<le> mes (tabla ! i) \<and> mes (tabla ! i) \<le> 12" if i: "i < 365" for i
  proof -
    from r i obtain hm ps h a b c d where "df ! i = fila_de_dia hm ps h a b c d (fechas ! i)"
      by blast
    then have "fecha (df ! i) = fechas ! i" "mes (df ! i) = int (month (fechas ! i))"
      by (simp_all add: fila_de_dia_campos)
    then have "fecha (tabla ! i) = fechas ! i" "mes (tabla ! i) = int (month (fechas ! i))"
      using i l by (simp_all add: t fila_dia_def masa_cols perdidas_cols temp_cols)
    moreover have "fechas ! i = mas_dias fecha_inicio i" using i by (simp add: fechas_def)
    ultimately show ?thesis
      using mes_de_indice[OF i] mes_gregoriano_rango[of i] by simp
  qed
  then show ?thesis using l t by (simp add: mes_gregoriano_rango)
qed

subsection \<open>Bounds on one day of the thermal model\<close>

lemma eficiencia_no_negativa:
  assumes "init_ParametrosDesalinizador c = Inr p"
  shows "0 \<le> eficiencia_sistema p radiacion temp_C"
proof -
  have f: "factores_eficiencia p = \<lparr>alto = 85/100, medio = 65/100, bajo = 45/100, minimo = 25/100\<rparr>"
    by (rule init_campos[OF assms])
  have "0 \<le> factor_temp temp_C" using factor_temp_cotas[of temp_C] by simp
  then show ?thesis by (simp add: eficiencia_sistema_def f)
qed

lemma umbral:
  fixes x y b :: real
  assumes "y = (if x < 1/1000 then 0 else x)" "x \<le> b" "0 \<le> b"
  shows "0 \<le> y \<and> y \<le> b \<and> (y = 0 \<or> 1/1000 \<le> y)"
  using assms by (cases "x < 1/1000") simp_all

lemma masa_cotas:
  assumes v: "config_valida c" and p: "init_ParametrosDesalinizador c = Inr p"
  shows "0 \<le> masa_evaporada (fila_masa_evaporada p r) \<and>
         masa_evaporada (fila_masa_evaporada p r) \<le> (25/100) * cfg_masa_agua (condiciones_operacion c) \<and>
         (masa_evaporada (fila_masa_evaporada p r) = 0 \<or> 1/1000 \<le> masa_evaporada (fila_masa_evaporada p r)) \<and>
         produccion_litros (fila_masa_evaporada p r) = masa_evaporada (fila_masa_evaporada p r)"
proof -
  let ?d = "fila_masa_evaporada p r"
  define m1 where "m1 = min (energia_evaporacion ?d / calor_latente_vaporizacion p *
                    eficiencia_sistema p (radiacion_Wm2 r) (temp_ambiente_C r))
                 (masa_agua p * (25/100))"
  have m: "masa_evaporada ?d = (if m1 < 1/1000 then 0 else m1)"
    unfolding m1_def by (rule masa_cols)
  have mp: "0 \<le> masa_agua p * (25/100)"
    using v by (simp add: init_campos[OF p] config_valida_def)
  have le: "m1 \<le> masa_agua p * (25/100)" unfolding m1_def by (rule min.cobounded2)
  have 4: "produccion_litros ?d = masa_evaporada ?d" by (rule masa_cols)
  have e: "masa_agua p * (25/100) = (25/100) * cfg_masa_agua (condiciones_operacion c)"
    by (simp add: init_campos[OF p])
  from umbral[OF m le mp] 4 show ?thesis unfolding e by blast
qed

lemma perdida_total_no_negativa:
  assumes v: "config_valida c" and p: "init_ParametrosDesalinizador c = Inr p"
    and rt: "0 < rt" and rad: "0 \<le> radiacion_Wm2 r" and w: "0 \<le> velocidad_viento r"
    and amb: "6 \<le> temp_ambiente_K r"
  shows "0 \<le> perdida_total (fila_perdidas_termicas p rt (fila_temperatura r))"
proof -
  let ?t = "fila_temperatura r"
  let ?d = "fila_perdidas_termicas p rt ?t"
  note f = init_campos[OF p]
  from v have dims: "0 < cfg_largo (dimensiones c)" "0 < cfg_ancho (dimensiones c)"
    "0 < cfg_altura (dimensiones c)"
    by (simp_all add: config_valida_def)
  have at: "0 \<le> area_tapa p" using dims by (simp add: f)
  have ap: "0 \<le> area_paredes p" using dims by (simp add: f)
  have h: "0 \<le> h_conv_ext ?d" using w
    by (simp add: perdidas_cols temp_cols calcular_coef_conveccion_viento_def)
  have ag: "temp_agua_K ?t - temp_ambiente_K ?t = (8/100) * radiacion_Wm2 r"
    by (simp add: temp_cols)
  have dag: "0 \<le> temp_agua_K ?t - temp_ambiente_K ?t" using rad by (simp add: ag)
  have vi: "temp_vidrio_K ?t - temp_ambiente_K ?t = (3/10) * ((8/100) * radiacion_Wm2 r)"
    by (simp add: temp_cols)
  have dvi: "0 \<le> temp_vidrio_K ?t - temp_ambiente_K ?t" using rad by (simp add: vi)
  have cielo: "0 \<le> temp_cielo_K ?d" "temp_cielo_K ?d \<le> temp_vidrio_K ?t"
    using amb dvi by (simp_all add: perdidas_cols temp_cols)
  have pot: "temp_cielo_K ?d ^ 4 \<le> temp_vidrio_K ?t ^ 4"
    by (rule power_mono[OF cielo(2) cielo(1)])
  have 1: "0 \<le> perdida_conv_vidrio ?d"
    unfolding perdidas_cols(2) using h at dvi by (intro mult_nonneg_nonneg) simp_all
  have 2: "0 \<le> perdida_rad_vidrio ?d"
    unfolding perdidas_cols(4) using at pot by (intro mult_nonneg_nonneg) (simp_all add: f)
  have 3: "0 \<le> perdida_conv_paredes ?d"
    unfolding perdidas_cols(5) using h ap dag by (intro mult_nonneg_nonneg) simp_all
  have 4: "0 \<le> perdida_conduccion ?d"
    unfolding perdidas_cols(6) using dag rt by (intro divide_nonneg_pos mult_nonneg_nonneg) simp_all
  show ?thesis unfolding perdidas_cols(7) using 1 2 3 4 by simp
qed

lemma metricas_no_negativas:
  "0 \<le> GOR (fila_masa_evaporada p r) \<and> 0 \<le> eficiencia_termica (fila_masa_evaporada p r)"
proof -
  let ?d = "fila_masa_evaporada p r"
  have "0 \<le> energia_evaporacion ?d" "0 \<le> energia_util ?d"
    by (simp_all add: masa_cols(3,5)[of p r])
  then show ?thesis by (simp add: masa_cols(8,9)[of p r])
qed

lemma eficiencia_termica_cota:
  assumes "0 \<le> perdida_total r" "0 \<le> segundos_radiacion_util p"
  shows "eficiencia_termica (fila_masa_evaporada p r) \<le> 1"
proof (cases "0 < energia_solar (fila_masa_evaporada p r)")
  case False
  then show ?thesis by (simp add: masa_cols(9)[of p r])
next
  case True
  let ?d = "fila_masa_evaporada p r"
  have "0 \<le> energia_perdida ?d" using assms by (simp add: masa_cols(2))
  with True have "0 \<le> min (energia_perdida ?d) ((65/100) * energia_solar ?d)" by simp
  with True have "energia_util ?d \<le> energia_solar ?d" by (simp add: masa_cols(3)[of p r])
  with True show ?thesis by (simp add: masa_cols(9)[of p r])
qed

lemma GOR_cota:
  assumes "0 \<le> perdida_total r" "0 \<le> segundos_radiacion_util p"
    "0 \<le> masa_agua p * cp_agua p" "temp_inicial p \<le> temp_agua_K r"
  shows "GOR (fila_masa_evaporada p r) \<le> 1"
proof (cases "0 < energia_solar (fila_masa_evaporada p r)")
  case False
  then show ?thesis by (simp add: masa_cols(8)[of p r])
next
  case True
  let ?d = "fila_masa_evaporada p r"
  have "0 \<le> energia_perdida ?d" using assms by (simp add: masa_cols(2))
  with True have "0 \<le> min (energia_perdida ?d) ((65/100) * energia_solar ?d)" by simp
  with True have u: "energia_util ?d \<le> energia_solar ?d" by (simp add: masa_cols(3)[of p r])
  have "0 \<le> energia_calentamiento ?d"
    unfolding masa_cols(4) using assms(4) by (intro mult_nonneg_nonneg[OF assms(3)]) simp
  with u True have "energia_evaporacion ?d \<le> energia_solar ?d"
    by (simp add: masa_cols(5)[of p r])
  with True show ?thesis by (simp add: masa_cols(8)[of p r])
qed

lemma GOR_mayor_que_uno:
  assumes "0 < energia_solar (fila_masa_evaporada p r)"
    "(65/100) * energia_solar (fila_masa_evaporada p r) < - energia_calentamiento (fila_masa_evaporada p r)"
  shows "1 < GOR (fila_masa_evaporada p r)"
proof -
  let ?d = "fila_masa_evaporada p r"
  have a: "min (energia_perdida ?d) ((65/100) * energia_solar ?d) \<le> (65/100) * energia_solar ?d"
    by (rule min.cobounded2)
  have "energia_solar ?d - (65/100) * energia_solar ?d
          \<le> energia_solar ?d - min (energia_perdida ?d) ((65/100) * energia_solar ?d)"
    using a by linarith
  also have "\<dots> \<le> max 0 (energia_solar ?d - min (energia_perdida ?d) ((65/100) * energia_solar ?d))"
    by (rule max.cobounded2)
  finally have "energia_solar ?d - (65/100) * energia_solar ?d \<le> energia_util ?d"
    unfolding masa_cols(3)[of p r, symmetric] .
  with assms(2) have "energia_solar ?d < energia_util ?d - energia_calentamiento ?d" by simp
  then have "energia_solar ?d < energia_evaporacion ?d" by (simp add: masa_cols(5)[of p r])
  with assms(1) show ?thesis by (simp add: masa_cols(8)[of p r])
qed


lemma masa_umbral:
  "masa_evaporada (fila_masa_evaporada p r) =
     (if masa_sin_umbral p (fila_masa_evaporada p r) < 1/1000 then 0
      else masa_sin_umbral p (fila_masa_evaporada p r))"
  unfolding masa_sin_umbral_def masa_cols(12,13) by (rule masa_cols(6))

lemma energia_util_minima:
  "(35/100) * energia_solar (fila_masa_evaporada p r) \<le> energia_util (fila_masa_evaporada p r)"
proof -
  let ?d = "fila_masa_evaporada p r"
  have a: "min (energia_perdida ?d) ((65/100) * energia_solar ?d) \<le> (65/100) * energia_solar ?d"
    by (rule min.cobounded2)
  have "(35/100) * energia_solar ?d
          \<le> energia_solar ?d - min (energia_perdida ?d) ((65/100) * energia_solar ?d)"
    using a by linarith
  also have "\<dots> \<le> max 0 (energia_solar ?d - min (energia_perdida ?d) ((65/100) * energia_solar ?d))"
    by (rule max.cobounded2)
  finally show ?thesis unfolding masa_cols(3)[of p r, symmetric] .
qed

subsection \<open>The rows of a simulated year\<close>

lemma simular_filas:
  assumes s: "simular_desalinizador_anual semilla gauss (Some p) g = (Inr tabla, g')"
    and d: "d \<in> set tabla"
  shows "\<exists>rs r. calcular_resistencias_totales p = Inr rs \<and> d = fila_dia p (R_total rs * 8) r \<and>
           100 \<le> radiacion_Wm2 r \<and> radiacion_Wm2 r \<le> 950 \<and> 1/2 \<le> velocidad_viento r \<and>
           temp_ambiente_K r = temp_ambiente_C r + 27315/100"
proof -
  from simular_exito[OF s] obtain rs :: resistencias and df where
    rs: "calcular_resistencias_totales p = Inr rs"
    and df: "generar_datos_anuales gauss (fst (init_ModeloClimatico semilla p g)) (semilla 42) = (Inr df, g')"
    and t: "tabla = map (fila_dia p (R_total rs * 8)) df"
    by blast
  from generar_exito[OF df] have l: "length df = 365"
    and r: "\<forall>i<365. \<exists>h a b c d. df ! i =
             fila_de_dia (mc_hemisferio (fst (init_ModeloClimatico semilla p g)))
               (mc_param_sim (fst (init_ModeloClimatico semilla p g))) h a b c d (fechas ! i)"
    by simp_all
  from d t obtain i where i: "i < 365" "d = fila_dia p (R_total rs * 8) (df ! i)"
    using l by (auto simp: in_set_conv_nth)
  from r i(1) obtain hm ps h a b c e where "df ! i = fila_de_dia hm ps h a b c e (fechas ! i)"
    by blast
  then have "100 \<le> radiacion_Wm2 (df ! i) \<and> radiacion_Wm2 (df ! i) \<le> 950 \<and>
             1/2 \<le> velocidad_viento (df ! i) \<and>
             temp_ambiente_K (df ! i) = temp_ambiente_C (df ! i) + 27315/100"
    using fila_de_dia_campos(5,6,9,10)[of hm ps h a b c e "fechas ! i"] by simp
  with rs i(2) show ?thesis by blast
qed

lemma fila_dia_cols:
  "radiacion_Wm2 (fila_dia p rt r) = radiacion_Wm2 r"
  "temp_ambiente_K (fila_dia p rt r) = temp_ambiente_K r"
  "temp_ambiente_C (fila_dia p rt r) = temp_ambiente_C r"
  "temp_agua_K (fila_dia p rt r) = temp_ambiente_K r + (8/100) * radiacion_Wm2 r"
  "perdida_total (fila_dia p rt r) = perdida_total (fila_perdidas_termicas p rt (fila_temperatura r))"
  by (simp_all add: fila_dia_def masa_cols perdidas_cols temp_cols)

lemma campos_defecto:
  "cfg_hemisferio (condiciones_operacion cargar_parametros) = ''norte''"
  "cfg_variabilidad_diaria (parametros_simulacion cargar_parametros) = 100"
  "cfg_masa_agua (condiciones_operacion cargar_parametros) = 2"
  by (simp_all add: cfg_defs)

lemma simulacion_defecto:
  "\<exists>tabla. simular_desalinizador_anual semilla_nula ruido_nulo
       (Some (projr (init_ParametrosDesalinizador cargar_parametros))) () = (Inr tabla, ()) \<and>
     length tabla = 365"
proof -
  let ?p = "projr (init_ParametrosDesalinizador cargar_parametros)"
  note f = init_campos[OF init_defecto]
  have h: "lower (hemisferio ?p) = ''norte''"
    by (simp add: f(20) campos_defecto lower_norte)
  have var: "0 \<le> cfg_variabilidad_diaria (param_sim ?p)"
    by (simp add: f(21) campos_defecto)
  from resistencias_validas[OF valida_defecto init_defecto] obtain rs where
    "calcular_resistencias_totales ?p = Inr rs" by blast
  from simular_norte[OF h var this, of semilla_nula ruido_nulo "()"]
  obtain tabla g' where t: "simular_desalinizador_anual semilla_nula ruido_nulo (Some ?p) () = (Inr tabla, g')"
    by blast
  from calendario_simulacion[OF t] have "length tabla = 365" by simp
  with t show ?thesis by simp
qed

subsection \<open>A year without noise\<close>

lemma normales_nulo: "normales ruido_nulo g n = (replicate n 0, g)"
  by (induction n) (simp_all add: ruido_nulo_def)

lemma np_random_normal_nulo:
  "0 \<le> scale \<Longrightarrow> np_random_normal ruido_nulo 0 scale n g = (Inr (replicate n 0), g)"
  by (simp add: np_random_normal_def normales_nulo)

lemma generar_nulo:
  assumes "lower (mc_hemisferio self) = ''norte''" "0 \<le> cfg_variabilidad_diaria (mc_param_sim self)"
  shows "generar_datos_anuales ruido_nulo self g =
           (Inr (map (\<lambda>i. fila_de_dia (mc_hemisferio self) (mc_param_sim self)
                        (60 + 20 * cos (fase_mes (mc_hemisferio self) (int (month (fechas ! i)))))
                        0 0 0 0 (fechas ! i)) [0..<365]), g)"
proof -
  have "map (\<lambda>i. fila_de_dia (mc_hemisferio self) (mc_param_sim self)
                        (60 + 20 * cos (fase_mes (mc_hemisferio self) (int (month (fechas ! i)))))
                        (replicate 365 0 ! i) (replicate 365 0 ! i) (replicate 365 0 ! i)
                        (replicate 365 0 ! i) (fechas ! i)) [0..<365]
      = map (\<lambda>i. fila_de_dia (mc_hemisferio self) (mc_param_sim self)
                        (60 + 20 * cos (fase_mes (mc_hemisferio self) (int (month (fechas ! i)))))
                        0 0 0 0 (fechas ! i)) [0..<365]"
    by (rule map_cong) simp_all
  then show ?thesis
    unfolding generar_datos_anuales_def Let_def
    by (simp add: np_random_normal_nulo assms length_fechas)
qed

lemma simular_nulo:
  assumes "lower (hemisferio p) = ''norte''" "0 \<le> cfg_variabilidad_diaria (param_sim p)"
    "calcular_resistencias_totales p = Inr rs"
  shows "simular_desalinizador_anual semilla_nula ruido_nulo (Some p) () =
           (Inr (map (\<lambda>i. fila_dia p (R_total rs * 8)
                        (fila_de_dia (hemisferio p) (param_sim p)
                           (60 + 20 * cos (fase_mes (hemisferio p) (int (month (fechas ! i)))))
                           0 0 0 0 (fechas ! i))) [0..<365]), ())"
proof -
  let ?self = "fst (init_ModeloClimatico semilla_nula p ())"
  have h: "mc_hemisferio ?self = hemisferio p" "mc_param_sim ?self = param_sim p"
    by (simp_all add: init_ModeloClimatico_def)
  have g: "generar_datos_anuales ruido_nulo ?self () =
       (Inr (map (\<lambda>i. fila_de_dia (hemisferio p) (param_sim p)
                        (60 + 20 * cos (fase_mes (hemisferio p) (int (month (fechas ! i)))))
                        0 0 0 0 (fechas ! i)) [0..<365]), ())"
    using generar_nulo[of ?self "()"] assms(1,2) unfolding h by simp
  show ?thesis
    unfolding simular_desalinizador_anual_def Let_def calcular_perdidas_termicas_def
      calcular_temperatura_sistema_def calcular_masa_evaporada_def fila_dia_def
    using g by (simp add: init_ModeloClimatico_def assms(3) comp_def)
qed

lemma fechas_152: "fechas ! 152 = \<lparr>year = 2024, month = 6, day = 1\<rparr>"
  using inicios(6) by (simp add: fechas_def primero_def)

lemma dia_152:
  assumes "hemisferio p = ''norte''" "0 \<le> cfg_variabilidad_diaria (param_sim p)"
    "calcular_resistencias_totales p = Inr rs"
  shows "simular_desalinizador_anual semilla_nula ruido_nulo (Some p) () =
           (Inr (projr (fst (simular_desalinizador_anual semilla_nula ruido_nulo (Some p) ()))), ())"
    and "length (projr (fst (simular_desalinizador_anual semilla_nula ruido_nulo (Some p) ()))) = 365"
    and "projr (fst (simular_desalinizador_anual semilla_nula ruido_nulo (Some p) ())) ! 152 =
          fila_dia p (R_total rs * 8)
            (fila_de_dia ''norte'' (param_sim p) (60 + 20 * cos (fase_mes ''norte'' 6)) 0 0 0 0
               \<lparr>year = 2024, month = 6, day = 1\<rparr>)"
proof -
  have l: "lower (hemisferio p) = ''norte''" by (simp add: assms(1) lower_norte)
  note s = simular_nulo[OF l assms(2,3)]
  show "simular_desalinizador_anual semilla_nula ruido_nulo (Some p) () =
           (Inr (projr (fst (simular_desalinizador_anual semilla_nula ruido_nulo (Some p) ()))), ())"
    by (simp add: s)
  show "length (projr (fst (simular_desalinizador_anual semilla_nula ruido_nulo (Some p) ()))) = 365"
    by (simp add: s)
  show "projr (fst (simular_desalinizador_anual semilla_nula ruido_nulo (Some p) ())) ! 152 =
          fila_dia p (R_total rs * 8)
            (fila_de_dia ''norte'' (param_sim p) (60 + 20 * cos (fase_mes ''norte'' 6)) 0 0 0 0
               \<lparr>year = 2024, month = 6, day = 1\<rparr>)"
    by (simp add: s fechas_152 assms(1))
qed

lemma fase_junio: "fase_mes ''norte'' 6 = 0"
  by (simp add: fase_mes_def lower_norte)

lemma dia_sin_ruido_junio:
  fixes ps h f
  assumes "month f = 6"
  defines "r \<equiv> fila_de_dia ''norte'' ps h 0 0 0 0 f"
  shows "radiacion_Wm2 r = np_clip (cfg_radiacion_base ps + cfg_amplitud_variacion ps) 100 950"
    and "temp_ambiente_C r = 3" and "temp_ambiente_K r = 27615/100"
    and "velocidad_viento r = 2"
  unfolding r_def fila_de_dia_def Let_def
  by (simp_all add: fase_junio lower_norte assms(1))

subsection \<open>The two example years\<close>

lemma valida_fria: "config_valida config_fria"
  by (simp add: config_valida_def config_fria_def cfg_defs)

lemma init_fria: "init_ParametrosDesalinizador config_fria = Inr params_fria"
  unfolding params_fria_def
  using init_exito[OF valida_divisores[OF valida_fria]] by auto

lemma init_params_defecto: "init_ParametrosDesalinizador cargar_parametros = Inr params_defecto"
  unfolding params_defecto_def by (rule init_defecto)

lemma campos_fria:
  "cfg_hemisferio (condiciones_operacion config_fria) = ''norte''"
  "cfg_variabilidad_diaria (parametros_simulacion config_fria) = 100"
  "cfg_radiacion_base (parametros_simulacion config_fria) = 100"
  "cfg_amplitud_variacion (parametros_simulacion config_fria) = 0"
  "cfg_masa_agua (condiciones_operacion config_fria) = 4"
  "cfg_cp_agua (propiedades_agua config_fria) = 4186"
  "cfg_temp_inicial (propiedades_agua config_fria) = 293"
  "cfg_absorptividad (propiedades_termicas config_fria) = 9/10"
  "cfg_angulo_incidencia (propiedades_termicas config_fria) = 30"
  "cfg_largo (dimensiones config_fria) = 45/100"
  "cfg_ancho (dimensiones config_fria) = 25/100"
  "cfg_horas_radiacion_util (condiciones_operacion config_fria) = 6"
  by (simp_all add: config_fria_def cfg_defs)

lemma campos_defecto_mas:
  "cfg_radiacion_base (parametros_simulacion cargar_parametros) = 500"
  "cfg_amplitud_variacion (parametros_simulacion cargar_parametros) = 350"
  "cfg_temp_inicial (propiedades_agua cargar_parametros) = 293"
  by (simp_all add: cfg_defs)

lemma dia_152_defecto:
  "simular_desalinizador_anual semilla_nula ruido_nulo (Some params_defecto) () =
     (Inr tabla_defecto, ())"
  "tabla_defecto ! 152 \<in> set tabla_defecto"
  "temp_ambiente_K (tabla_defecto ! 152) = 27615/100"
  "temp_agua_K (tabla_defecto ! 152) = 34415/100"
proof -
  note f = init_campos[OF init_params_defecto]
  have h: "hemisferio params_defecto = ''norte''" by (simp add: f(20) campos_defecto)
  have v: "0 \<le> cfg_variabilidad_diaria (param_sim params_defecto)"
    by (simp add: f(21) campos_defecto)
  from resistencias_validas[OF valida_defecto init_params_defecto] obtain rs where
    rs: "calcular_resistencias_totales params_defecto = Inr rs" by blast
  note d = dia_152[OF h v rs, folded tabla_defecto_def]
  show "simular_desalinizador_anual semilla_nula ruido_nulo (Some params_defecto) () =
     (Inr tabla_defecto, ())" by (rule d(1))
  show "tabla_defecto ! 152 \<in> set tabla_defecto" using d(2) by simp
  show "temp_ambiente_K (tabla_defecto ! 152) = 27615/100"
    unfolding d(3) by (simp add: fila_dia_cols dia_sin_ruido_junio)
  show "temp_agua_K (tabla_defecto ! 152) = 34415/100"
    unfolding d(3)
    by (simp add: fila_dia_cols dia_sin_ruido_junio f(21) campos_defecto_mas np_clip_def)
qed

lemma dia_152_fria:
  "simular_desalinizador_anual semilla_nula ruido_nulo (Some params_fria) () =
     (Inr tabla_fria, ())"
  "tabla_fria ! 152 \<in> set tabla_fria"
  "radiacion_Wm2 (tabla_fria ! 152) = 100"
  "temp_ambiente_C (tabla_fria ! 152) = 3"
  "temp_agua_K (tabla_fria ! 152) = 28415/100"
  "\<exists>q. tabla_fria ! 152 = fila_masa_evaporada params_fria q \<and>
       radiacion_Wm2 q = 100 \<and> temp_agua_K q = 28415/100"
proof -
  note f = init_campos[OF init_fria]
  have h: "hemisferio params_fria = ''norte''" by (simp add: f(20) campos_fria)
  have v: "0 \<le> cfg_variabilidad_diaria (param_sim params_fria)"
    by (simp add: f(21) campos_fria)
  from resistencias_validas[OF valida_fria init_fria] obtain rs where
    rs: "calcular_resistencias_totales params_fria = Inr rs" by blast
  note d = dia_152[OF h v rs, folded tabla_fria_def]
  show "simular_desalinizador_anual semilla_nula ruido_nulo (Some params_fria) () =
     (Inr tabla_fria, ())" by (rule d(1))
  show "tabla_fria ! 152 \<in> set tabla_fria" using d(2) by simp
  show "radiacion_Wm2 (tabla_fria ! 152) = 100"
    unfolding d(3) by (simp add: fila_dia_cols dia_sin_ruido_junio f(21) campos_fria np_clip_def)
  show "temp_ambiente_C (tabla_fria ! 152) = 3"
    unfolding d(3) by (simp add: fila_dia_cols dia_sin_ruido_junio)
  show "temp_agua_K (tabla_fria ! 152) = 28415/100"
    unfolding d(3)
    by (simp add: fila_dia_cols dia_sin_ruido_junio f(21) campos_fria np_clip_def)
  show "\<exists>q. tabla_fria ! 152 = fila_masa_evaporada params_fria q \<and>
       radiacion_Wm2 q = 100 \<and> temp_agua_K q = 28415/100"
    unfolding d(3) fila_dia_def
    by (intro exI conjI, rule refl)
       (simp_all add: perdidas_cols temp_cols dia_sin_ruido_junio f(21) campos_fria np_clip_def)
qed

lemma cos_angulo_30: "0 < cos (radians 30) \<and> cos (radians 30) \<le> 1"
proof -
  have a: "- (pi / 2) < radians 30" "radians 30 < pi / 2"
    using pi_gt_zero unfolding radians_def by linarith+
  have "0 < cos (radians 30)" by (rule cos_gt_zero_pi[OF a])
  then show ?thesis by simp
qed


lemma cos_angulo_30_cota: "86/100 \<le> cos (radians 30)"
proof -
  have "radians 30 = pi / 6" unfolding radians_def by simp
  then have c: "cos (radians 30) = sqrt 3 / 2" by (simp only: cos_30)
  have "(172/100)\<^sup>2 \<le> (3::real)" by (simp add: power2_eq_square)
  then have "172/100 \<le> sqrt 3" by (rule real_le_rsqrt)
  then show ?thesis unfolding c by simp
qed

lemma campos_defecto_termicos:
  "cfg_cp_agua (propiedades_agua cargar_parametros) = 4186"
  "cfg_calor_latente_vaporizacion (propiedades_agua cargar_parametros) = 2260000"
  "cfg_absorptividad (propiedades_termicas cargar_parametros) = 9/10"
  "cfg_angulo_incidencia (propiedades_termicas cargar_parametros) = 30"
  "cfg_largo (dimensiones cargar_parametros) = 45/100"
  "cfg_ancho (dimensiones cargar_parametros) = 25/100"
  "cfg_horas_radiacion_util (condiciones_operacion cargar_parametros) = 6"
  by (simp_all add: cfg_defs)

lemma dia_152_defecto_fila:
  "\<exists>q. tabla_defecto ! 152 = fila_masa_evaporada params_defecto q \<and>
       radiacion_Wm2 q = 850 \<and> temp_agua_K q = 34415/100 \<and> temp_ambiente_C q = 3"
proof -
  note f = init_campos[OF init_params_defecto]
  have h: "hemisferio params_defecto = ''norte''" by (simp add: f(20) campos_defecto)
  have v: "0 \<le> cfg_variabilidad_diaria (param_sim params_defecto)"
    by (simp add: f(21) campos_defecto)
  from resistencias_validas[OF valida_defecto init_params_defecto] obtain rs where
    rs: "calcular_resistencias_totales params_defecto = Inr rs" by blast
  note d = dia_152[OF h v rs, folded tabla_defecto_def]
  show ?thesis
    unfolding d(3) fila_dia_def
    by (intro exI conjI, rule refl)
       (simp_all add: perdidas_cols temp_cols dia_sin_ruido_junio f(21) campos_defecto_mas np_clip_def)
qed

lemma masa_dia_152_defecto: "1/1000 \<le> masa_sin_umbral params_defecto (tabla_defecto ! 152)"
proof -
  note f = init_campos[OF init_params_defecto]
  from dia_152_defecto_fila obtain q where
    d: "tabla_defecto ! 152 = fila_masa_evaporada params_defecto q"
    and rad: "radiacion_Wm2 q = 850" and agua: "temp_agua_K q = 34415/100"
    and amb: "temp_ambiente_C q = 3"
    by blast
  let ?d = "fila_masa_evaporada params_defecto q"
  define k where "k = cos (radians 30)"
  have k: "86/100 \<le> k" unfolding k_def by (rule cos_angulo_30_cota)
  have solar: "energia_solar ?d = 1858950 * k"
    by (simp add: masa_cols(1) rad f campos_defecto_termicos k_def)
  have cal: "energia_calentamiento ?d = 4282278/10"
    by (simp add: masa_cols(4) agua f campos_defecto campos_defecto_mas campos_defecto_termicos)
  have "(35/100) * (1858950 * k) \<le> energia_util ?d"
    using energia_util_minima[of params_defecto q] unfolding solar .
  with k have u: "559543 \<le> energia_util ?d" by simp
  have "energia_util ?d - energia_calentamiento ?d \<le> energia_evaporacion ?d"
    unfolding masa_cols(5)[of params_defecto q] by (rule max.cobounded2)
  with u cal have e: "131000 \<le> energia_evaporacion ?d" by simp
  have ef: "eficiencia_sistema params_defecto (radiacion_Wm2 ?d) (temp_ambiente_C ?d) = 425/1000"
    by (simp add: masa_cols rad amb eficiencia_sistema_def f factor_temp_def np_clip_def)
  have L: "calor_latente_vaporizacion params_defecto = 2260000"
    by (simp add: f campos_defecto_termicos)
  have m: "masa_agua params_defecto * (25/100) = 1/2"
    by (simp add: f campos_defecto)
  have "1/1000 \<le> energia_evaporacion ?d / 2260000 * (425/1000)"
    using e by simp
  then show ?thesis
    unfolding d masa_sin_umbral_def ef L m by simp
qed

subsection \<open>Tables in the store\<close>

lemma extiende_copy: "extiende s (snd (df_copy s a))"
  by (simp add: extiende_def df_copy_def)

lemma extiende_asignar:
  "extiende s s' \<Longrightarrow> extiende s (asignar (length s) nombre valores s')"
  by (simp add: extiende_def asignar_def)

lemma extiende_asignar_escalar:
  "extiende s s' \<Longrightarrow> extiende s (asignar_escalar (length s) nombre x s')"
  by (simp add: asignar_escalar_def extiende_asignar)

lemma extiende_nth: "extiende s s' \<Longrightarrow> a < length s \<Longrightarrow> s' ! a = s ! a"
  by (metis extiende_def nth_take)

lemma temperatura_mem_extiende:
  "extiende s (snd (calcular_temperatura_sistema_mem s datos))"
proof -
  have c: "df_copy s datos = (length s, s @ [s ! datos])" by (simp add: df_copy_def)
  have e0: "extiende s (s @ [s ! datos])" by (simp add: extiende_def)
  note e = extiende_asignar extiende_asignar_escalar
  show ?thesis
    unfolding calcular_temperatura_sistema_mem_def c Let_def prod.case
    by (auto split: sum.splits intro!: e e0)
qed

lemma temperatura_mem_direccion:
  "fst (calcular_temperatura_sistema_mem s datos) = Inr df \<Longrightarrow> df = length s"
  unfolding calcular_temperatura_sistema_mem_def df_copy_def Let_def prod.case
  by (auto split: sum.splits)


lemma map_of_poner_columna:
  "map_of (poner_columna n v cs) k = (if k = n then Some v else map_of cs k)"
  by (induction cs) auto

lemma numeros_Flotante: "numeros (map (\<lambda>r. Flotante (f r)) xs) = Inr (map f xs)"
  by (induction xs) simp_all

lemma numeros_Flotante': "numeros (map Flotante xs) = Inr xs"
  by (induction xs) simp_all

lemma numeros_replicate: "numeros (replicate n (Flotante x)) = Inr (replicate n x)"
  by (induction n) simp_all

lemma leer_asignar:
  "a < length s \<Longrightarrow> leer (asignar a n v s) a k = (if k = n then numeros v else leer s a k)"
  by (simp add: leer_def asignar_def map_of_poner_columna)

lemma leer_asignar_escalar:
  "a < length s \<Longrightarrow>
     leer (asignar_escalar a n x s) a k =
       (if k = n then Inr (replicate (n_filas (s ! a)) x) else leer s a k)"
  by (simp add: asignar_escalar_def leer_asignar numeros_replicate)

lemma length_asignar: "length (asignar a n v s) = length s"
  by (simp add: asignar_def)

lemma length_asignar_escalar: "length (asignar_escalar a n x s) = length s"
  by (simp add: asignar_escalar_def length_asignar)

lemma columna_asignar:
  "a < length s \<Longrightarrow>
     map_of (columnas (asignar a n v s ! a)) k = (if k = n then Some v else map_of (columnas (s ! a)) k)"
  by (simp add: asignar_def map_of_poner_columna)

lemma leer_clima:
  assumes "s ! a = DataFrame_de_clima filas"
  shows "leer s a ''temp_ambiente_K'' = Inr (map temp_ambiente_K filas)"
    and "leer s a ''radiacion_Wm2'' = Inr (map radiacion_Wm2 filas)"
  by (simp_all add: leer_def assms DataFrame_de_clima_def numeros_Flotante)

text \<open>On the table of a generated climate the store-level method succeeds, and the
  columns it writes into the copy are the columns of the row-level method.\<close>

lemma temperatura_mem_filas:
  assumes d: "datos < length s" and f: "s ! datos = DataFrame_de_clima filas"
  shows "fst (calcular_temperatura_sistema_mem s datos) = Inr (length s)"
    and "map_of (columnas (snd (calcular_temperatura_sistema_mem s datos) ! length s)) ''temp_agua_K''
           = Some (map (\<lambda>r. Flotante (temp_agua_K r)) (calcular_temperatura_sistema filas))"
    and "map_of (columnas (snd (calcular_temperatura_sistema_mem s datos) ! length s)) ''temp_vidrio_K''
           = Some (map (\<lambda>r. Flotante (temp_vidrio_K r)) (calcular_temperatura_sistema filas))"
    and "map_of (columnas (snd (calcular_temperatura_sistema_mem s datos) ! length s)) ''temp_base_C''
           = Some (map (\<lambda>r. Flotante (temp_base_C r)) (calcular_temperatura_sistema filas))"
proof -
  let ?s1 = "s @ [s ! datos]"
  have c: "df_copy s datos = (length s, ?s1)" by (simp add: df_copy_def)
  have n: "?s1 ! length s = DataFrame_de_clima filas" by (simp add: f)
  note l = leer_clima[OF n]
  note simps = leer_asignar leer_asignar_escalar length_asignar length_asignar_escalar
    columna_asignar numeros_Flotante numeros_Flotante' l map2_map_map comp_def
  have r: "calcular_temperatura_sistema_mem s datos =
        (Inr (length s), snd (calcular_temperatura_sistema_mem s datos))"
    unfolding calcular_temperatura_sistema_mem_def c Let_def prod.case
    by (simp add: simps)
  show "fst (calcular_temperatura_sistema_mem s datos) = Inr (length s)"
    using r by (metis fst_conv)
  show "map_of (columnas (snd (calcular_temperatura_sistema_mem s datos) ! length s)) ''temp_agua_K''
           = Some (map (\<lambda>r. Flotante (temp_agua_K r)) (calcular_temperatura_sistema filas))"
    unfolding calcular_temperatura_sistema_mem_def c Let_def prod.case
      calcular_temperatura_sistema_def fila_temperatura_def
    by (simp add: simps sel_temp)
  show "map_of (columnas (snd (calcular_temperatura_sistema_mem s datos) ! length s)) ''temp_vidrio_K''
           = Some (map (\<lambda>r. Flotante (temp_vidrio_K r)) (calcular_temperatura_sistema filas))"
    unfolding calcular_temperatura_sistema_mem_def c Let_def prod.case
      calcular_temperatura_sistema_def fila_temperatura_def
    by (simp add: simps sel_temp)
  show "map_of (columnas (snd (calcular_temperatura_sistema_mem s datos) ! length s)) ''temp_base_C''
           = Some (map (\<lambda>r. Flotante (temp_base_C r)) (calcular_temperatura_sistema filas))"
    unfolding calcular_temperatura_sistema_mem_def c Let_def prod.case
      calcular_temperatura_sistema_def fila_temperatura_def
    by (simp add: simps sel_temp)
qed

subsection \<open>Grouping and the summaries\<close>

lemma sum_list_indicador:
  fixes c :: real
  assumes "distinct ks"
  shows "sum_list (map (\<lambda>k. if a = k then c else 0) ks) = (if a \<in> set ks then c else 0)"
  using assms by (induction ks) auto

lemma sum_list_por_clave:
  fixes f :: "'r \<Rightarrow> real"
  assumes "distinct ks" "key ` set df \<subseteq> set ks"
  shows "sum_list (map (\<lambda>k. sum_list (map f (filter (\<lambda>r. key r = k) df))) ks) = sum_list (map f df)"
  using assms(2)
proof (induction df)
  case Nil
  show ?case by simp
next
  case (Cons r df)
  have "sum_list (map (\<lambda>k. sum_list (map f (filter (\<lambda>x. key x = k) (r # df)))) ks)
      = sum_list (map (\<lambda>k. (if key r = k then f r else 0) +
                               sum_list (map f (filter (\<lambda>x. key x = k) df))) ks)"
    by (intro arg_cong[where f=sum_list] map_cong) simp_all
  also have "\<dots> = sum_list (map (\<lambda>k. if key r = k then f r else 0) ks) +
                   sum_list (map (\<lambda>k. sum_list (map f (filter (\<lambda>x. key x = k) df))) ks)"
    by (rule sum_list_addf)
  also have "\<dots> = f r + sum_list (map f df)"
    using Cons sum_list_indicador[OF assms(1), of "key r" "f r"] by simp
  finally show ?case by simp
qed

lemma claves_groupby:
  "map fst (groupby key df) = sort (remdups (map key df))"
  "distinct (map fst (groupby key df))"
  "set (map fst (groupby key df)) = key ` set df"
  by (simp_all add: groupby_def comp_def)

lemma sum_list_groupby:
  fixes f :: "'r \<Rightarrow> real"
  shows "sum_list (map (\<lambda>kg. sum_list (map f (snd kg))) (groupby key df)) = sum_list (map f df)"
proof -
  have "sum_list (map (\<lambda>kg. sum_list (map f (snd kg))) (groupby key df))
      = sum_list (map (\<lambda>k. sum_list (map f (filter (\<lambda>r. key r = k) df))) (sort (remdups (map key df))))"
    by (simp add: groupby_def comp_def)
  also have "\<dots> = sum_list (map f df)"
    by (rule sum_list_por_clave) simp_all
  finally show ?thesis .
qed

lemma secuencia_exito:
  assumes "\<forall>x\<in>set xs. f x = Inr (g x)"
  shows "secuencia (map f xs) = Inr (map g xs)"
  using assms by (induction xs) simp_all

lemma nombre_de_mes: "1 \<le> k \<Longrightarrow> k \<le> 12 \<Longrightarrow> \<exists>n. py_index nombres_meses (k - 1) = Inr n"
  by (simp add: py_index_def nombres_meses_def)

lemma agg_mensual_exito:
  assumes "1 \<le> k" "k \<le> 12"
  shows "agg_mensual (k, g) = Inr (fila_de_mes (k, g))"
    and "m_mes (fila_de_mes (k, g)) = k"
    and "m_produccion_litros (fila_de_mes (k, g)) = sum_list (map produccion_litros g)"
proof -
  from nombre_de_mes[OF assms] obtain n where n: "py_index nombres_meses (k - 1) = Inr n" by blast
  show "agg_mensual (k, g) = Inr (fila_de_mes (k, g))"
    by (simp add: fila_de_mes_def agg_mensual_def n)
  show "m_mes (fila_de_mes (k, g)) = k"
    by (simp add: fila_de_mes_def agg_mensual_def n)
  show "m_produccion_litros (fila_de_mes (k, g)) = sum_list (map produccion_litros g)"
    by (simp add: fila_de_mes_def agg_mensual_def n)
qed

lemma resumen_mensual_exito:
  assumes "\<forall>r\<in>set df. 1 \<le> mes r \<and> mes r \<le> 12"
  shows "resumen_mensual df = Inr (map fila_de_mes (groupby mes df))"
    and "sum_list (map m_produccion_litros (map fila_de_mes (groupby mes df))) =
           sum_list (map produccion_litros df)"
    and "\<forall>m\<in>set (map fila_de_mes (groupby mes df)). 1 \<le> m_mes m \<and> m_mes m \<le> 12"
proof -
  have k: "1 \<le> fst kg \<and> fst kg \<le> 12" if "kg \<in> set (groupby mes df)" for kg
  proof -
    from that have "fst kg \<in> set (map fst (groupby mes df))" by simp
    then have "fst kg \<in> mes ` set df" by (simp only: claves_groupby(3))
    with assms show ?thesis by auto
  qed
  have a: "\<forall>kg\<in>set (groupby mes df). agg_mensual kg = Inr (fila_de_mes kg)"
    using k agg_mensual_exito(1) by (metis prod.collapse)
  show "resumen_mensual df = Inr (map fila_de_mes (groupby mes df))"
    unfolding resumen_mensual_def by (rule secuencia_exito[OF a])
  have "map m_produccion_litros (map fila_de_mes (groupby mes df)) =
        map (\<lambda>kg. sum_list (map produccion_litros (snd kg))) (groupby mes df)"
    using k agg_mensual_exito(3) by (auto simp: comp_def)
  then show "sum_list (map m_produccion_litros (map fila_de_mes (groupby mes df))) =
           sum_list (map produccion_litros df)"
    by (simp only: sum_list_groupby)
  show "\<forall>m\<in>set (map fila_de_mes (groupby mes df)). 1 \<le> m_mes m \<and> m_mes m \<le> 12"
    using k agg_mensual_exito(2) by auto
qed

lemma estaciones_distintas: "distinct estaciones_base" "length estaciones_base = 4"
  by (simp_all add: estaciones_base_def Invierno_def Primavera_def Verano_def Otonio_def)

lemma estacion_de_mes_base:
  "1 \<le> m \<Longrightarrow> m \<le> 12 \<Longrightarrow> estacion_de_mes m \<in> set estaciones_base"
proof -
  assume "1 \<le> m" "m \<le> 12"
  then have "m = 1 \<or> m = 2 \<or> m = 3 \<or> m = 4 \<or> m = 5 \<or> m = 6 \<or> m = 7 \<or> m = 8 \<or> m = 9
             \<or> m = 10 \<or> m = 11 \<or> m = 12" by arith
  then show ?thesis
    by (auto simp: estacion_de_mes_def estaciones_base_def Let_def)
qed

lemma resumen_estacional_propiedades:
  assumes "\<forall>m\<in>set dm. 1 \<le> m_mes m \<and> m_mes m \<le> 12"
  shows "distinct (map e_estacion (resumen_estacional dm))"
    and "set (map e_estacion (resumen_estacional dm)) = set estaciones_base"
    and "length (resumen_estacional dm) = 4"
    and "sum_list (map e_produccion_litros (resumen_estacional dm)) =
           sum_list (map m_produccion_litros dm)"
    and "\<forall>e\<in>set estaciones_base. e \<notin> (\<lambda>m. estacion_de_mes (m_mes m)) ` set dm \<longrightarrow>
            nueva_fila e \<in> set (resumen_estacional dm)"
proof -
  let ?key = "\<lambda>r. estacion_de_mes (m_mes r)"
  let ?E = "map agg_estacion (groupby ?key dm)"
  let ?ks = "map e_estacion ?E"
  let ?N = "map nueva_fila (filter (\<lambda>e. e \<notin> set (remdups ?ks)) estaciones_base)"
  have r: "resumen_estacional dm = ?E @ ?N"
    unfolding resumen_estacional_def Let_def by (rule refl)
  have ks: "?ks = map fst (groupby ?key dm)"
    by (simp add: agg_estacion_def comp_def split_def)
  have dks: "distinct ?ks" unfolding ks by (rule claves_groupby(2))
  have sks: "set ?ks = ?key ` set dm" unfolding ks by (rule claves_groupby(3))
  have sub: "set ?ks \<subseteq> set estaciones_base"
    unfolding sks using assms estacion_de_mes_base by auto
  have nn: "map e_estacion ?N = filter (\<lambda>e. e \<notin> set ?ks) estaciones_base"
    by (simp add: comp_def nueva_fila_def)
  have names: "map e_estacion (resumen_estacional dm) =
               ?ks @ filter (\<lambda>e. e \<notin> set ?ks) estaciones_base"
    unfolding r using nn by simp
  show d: "distinct (map e_estacion (resumen_estacional dm))"
    unfolding names using dks estaciones_distintas(1) by auto
  show s: "set (map e_estacion (resumen_estacional dm)) = set estaciones_base"
    unfolding names using sub by auto
  have "length (map e_estacion (resumen_estacional dm)) = card (set estaciones_base)"
    using d s by (metis distinct_card)
  also have "\<dots> = 4"
    using estaciones_distintas by (metis distinct_card)
  finally show "length (resumen_estacional dm) = 4" by simp
  have z: "sum_list (map e_produccion_litros ?N) = 0"
    by (simp add: comp_def nueva_fila_def)
  have "map e_produccion_litros ?E =
        map (\<lambda>kg. sum_list (map m_produccion_litros (snd kg))) (groupby ?key dm)"
    by (simp add: agg_estacion_def comp_def split_def)
  then have "sum_list (map e_produccion_litros ?E) = sum_list (map m_produccion_litros dm)"
    by (simp only: sum_list_groupby)
  with z show "sum_list (map e_produccion_litros (resumen_estacional dm)) =
           sum_list (map m_produccion_litros dm)"
    unfolding r by simp
  show "\<forall>e\<in>set estaciones_base. e \<notin> ?key ` set dm \<longrightarrow>
            nueva_fila e \<in> set (resumen_estacional dm)"
    unfolding r using sks by auto
qed


lemma meses_resumen:
  assumes "\<forall>r\<in>set df. 1 \<le> mes r \<and> mes r \<le> 12"
  shows "m_mes ` set (map fila_de_mes (groupby mes df)) = mes ` set df"
proof -
  have k: "1 \<le> fst kg \<and> fst kg \<le> 12" if "kg \<in> set (groupby mes df)" for kg
  proof -
    from that have "fst kg \<in> set (map fst (groupby mes df))" by simp
    then have "fst kg \<in> mes ` set df" by (simp only: claves_groupby(3))
    with assms show ?thesis by auto
  qed
  have "map m_mes (map fila_de_mes (groupby mes df)) = map fst (groupby mes df)"
    using k agg_mensual_exito(2) by (auto simp: comp_def)
  then have "set (map m_mes (map fila_de_mes (groupby mes df))) = mes ` set df"
    by (simp only: claves_groupby(3))
  then show ?thesis by (simp add: image_image)
qed

lemma meses_tabla_defecto: "\<forall>r\<in>set tabla_defecto. 1 \<le> mes r \<and> mes r \<le> 12"
proof
  fix r assume "r \<in> set tabla_defecto"
  moreover note c = calendario_simulacion[OF dia_152_defecto(1)]
  ultimately obtain i where "i < 365" "r = tabla_defecto ! i"
    by (auto simp: in_set_conv_nth)
  with c show "1 \<le> mes r \<and> mes r \<le> 12" by (simp add: mes_gregoriano_rango)
qed

subsection \<open>The one-day table and the configuration with 2 grams of water\<close>

lemma mes_tabla_junio: "mes (tabla_defecto ! 152) = 6"
  using calendario_simulacion[OF dia_152_defecto(1)] by (simp add: mes_gregoriano_2024_def)

lemma meses_tabla_junio: "\<forall>r\<in>set tabla_junio. 1 \<le> mes r \<and> mes r \<le> 12"
  by (simp add: tabla_junio_def mes_tabla_junio)

lemma estaciones_tabla_junio:
  "(\<lambda>r. estacion_de_mes (mes r)) ` set tabla_junio = {Verano}"
  by (simp add: tabla_junio_def mes_tabla_junio estacion_de_mes_def)

lemma valida_seca: "config_valida config_seca"
  by (simp add: config_valida_def config_seca_def cfg_defs)

lemma init_seca: "init_ParametrosDesalinizador config_seca = Inr params_seca"
  unfolding params_seca_def
  using init_exito[OF valida_divisores[OF valida_seca]] by auto

lemma campos_seca:
  "cfg_hemisferio (condiciones_operacion config_seca) = ''norte''"
  "cfg_variabilidad_diaria (parametros_simulacion config_seca) = 100"
  "cfg_masa_agua (condiciones_operacion config_seca) = 2/1000"
  by (simp_all add: config_seca_def cfg_defs)

text \<open>Away from an irradiance of exactly 800, the efficiency the code applies is the value
  of the named range times the temperature factor, and the factor is within its clip.\<close>

lemma eficiencia_fuera_de_800:
  assumes "init_ParametrosDesalinizador c = Inr p" and "radiacion \<noteq> 800"
  shows "eficiencia_sistema p radiacion temp_C =
           banda_nombrada radiacion * np_clip ((temp_C + 10) / 40) (1/2) (12/10)"
    and "1/2 \<le> np_clip ((temp_C + 10) / 40) (1/2) (12/10)"
    and "np_clip ((temp_C + 10) / 40) (1/2) (12/10) \<le> 12/10"
proof -
  have f: "factores_eficiencia p = \<lparr>alto = 85/100, medio = 65/100, bajo = 45/100, minimo = 25/100\<rparr>"
    by (rule init_campos[OF assms(1)])
  show "eficiencia_sistema p radiacion temp_C =
           banda_nombrada radiacion * np_clip ((temp_C + 10) / 40) (1/2) (12/10)"
    using assms(2) by (simp add: eficiencia_sistema_def f factor_temp_def banda_nombrada_def)
  show "1/2 \<le> np_clip ((temp_C + 10) / 40) (1/2) (12/10)"
    "np_clip ((temp_C + 10) / 40) (1/2) (12/10) \<le> 12/10"
    using factor_temp_cotas[of temp_C] by (simp_all add: factor_temp_def)
qed

section \<open>C1: GOR and thermal efficiency\<close>

text \<open>
  C1 as stated fails. On the flat-irradiance site (a valid configuration: irradiance
  100 W per square metre all year, 4 kg of water), June 1 of the year without noise has an
  ambient temperature of 3 degrees Celsius, so the water (284.15 K) is colder than the
  configured initial temperature (293 K); the heating energy is negative, the evaporation
  energy exceeds the solar energy, and the GOR of that day is above 1.
\<close>

theorem metricas_counterexample:
  "config_valida config_fria \<and>
   init_ParametrosDesalinizador config_fria = Inr params_fria \<and>
   simular_desalinizador_anual semilla_nula ruido_nulo (Some params_fria) () = (Inr tabla_fria, ()) \<and>
   tabla_fria ! 152 \<in> set tabla_fria \<and>
   radiacion_Wm2 (tabla_fria ! 152) = 100 \<and> temp_ambiente_C (tabla_fria ! 152) = 3 \<and>
   1 < GOR (tabla_fria ! 152)"
proof -
  note f = init_campos[OF init_fria]
  from dia_152_fria(6) obtain q where
    d: "tabla_fria ! 152 = fila_masa_evaporada params_fria q"
    and rad: "radiacion_Wm2 q = 100" and agua: "temp_agua_K q = 28415/100"
    by blast
  define k where "k = cos (radians 30)"
  have k: "0 < k" "k \<le> 1" using cos_angulo_30 by (simp_all add: k_def)
  have solar: "energia_solar (fila_masa_evaporada params_fria q) = 218700 * k"
    by (simp add: masa_cols(1) rad f campos_fria k_def)
  have cal: "energia_calentamiento (fila_masa_evaporada params_fria q) = - (1481844/10)"
    by (simp add: masa_cols(4) agua f campos_fria)
  have "1 < GOR (fila_masa_evaporada params_fria q)"
  proof (rule GOR_mayor_que_uno)
    show "0 < energia_solar (fila_masa_evaporada params_fria q)"
      unfolding solar using k by simp
    show "65 / 100 * energia_solar (fila_masa_evaporada params_fria q)
            < - energia_calentamiento (fila_masa_evaporada params_fria q)"
      unfolding solar cal using k by simp
  qed
  with valida_fria init_fria dia_152_fria(1-4) show ?thesis by (simp add: d)
qed

text \<open>
  C1, as amended: for every valid configuration and every day of a simulated year, the GOR
  and the thermal efficiency are never negative; the thermal efficiency is at most 1 on
  every day whose ambient temperature is at least 6 K (so that the sky temperature of the
  radiative loss is not negative); and the GOR is at most 1 on every such day on which the
  water temperature is at least the configured initial temperature.
\<close>

theorem metricas_acotadas:
  assumes "config_valida c" and "init_ParametrosDesalinizador c = Inr p"
    and "simular_desalinizador_anual semilla gauss (Some p) g = (Inr tabla, g')"
    and "d \<in> set tabla"
  shows "0 \<le> GOR d \<and> 0 \<le> eficiencia_termica d \<and>
         (6 \<le> temp_ambiente_K d \<longrightarrow> eficiencia_termica d \<le> 1) \<and>
         (6 \<le> temp_ambiente_K d \<and> temp_inicial p \<le> temp_agua_K d \<longrightarrow> GOR d \<le> 1)"
proof -
  from simular_filas[OF assms(3,4)] obtain rs :: resistencias and r where
    rs: "calcular_resistencias_totales p = Inr rs"
    and d: "d = fila_dia p (R_total rs * 8) r"
    and rad: "100 \<le> radiacion_Wm2 r" and w: "1/2 \<le> velocidad_viento r"
    by blast
  let ?q = "fila_perdidas_termicas p (R_total rs * 8) (fila_temperatura r)"
  have dq: "d = fila_masa_evaporada p ?q" by (simp add: d fila_dia_def)
  from resistencias_validas[OF assms(1,2)] rs have rt: "0 < R_total rs * 8" by auto
  note f = init_campos[OF assms(2)]
  have seg: "0 \<le> segundos_radiacion_util p"
    using assms(1) by (simp add: f config_valida_def)
  have mc: "0 \<le> masa_agua p * cp_agua p"
    using assms(1) by (simp add: f config_valida_def)
  have 1: "0 \<le> GOR d \<and> 0 \<le> eficiencia_termica d"
    unfolding dq by (rule metricas_no_negativas)
  have pt: "0 \<le> perdida_total ?q" if "6 \<le> temp_ambiente_K d"
  proof -
    from that have "6 \<le> temp_ambiente_K r" by (simp add: d fila_dia_cols)
    with rad w show ?thesis
      by (intro perdida_total_no_negativa[OF assms(1,2) rt]) simp_all
  qed
  have 2: "eficiencia_termica d \<le> 1" if "6 \<le> temp_ambiente_K d"
    unfolding dq by (rule eficiencia_termica_cota[OF pt[OF that] seg])
  have 3: "GOR d \<le> 1" if "6 \<le> temp_ambiente_K d" "temp_inicial p \<le> temp_agua_K d"
  proof -
    from that(2) have "temp_inicial p \<le> temp_agua_K ?q" by (simp add: dq masa_cols)
    then show ?thesis unfolding dq by (rule GOR_cota[OF pt[OF that(1)] seg mc])
  qed
  from 1 2 3 show ?thesis by blast
qed

theorem metricas_acotadas_witness:
  "config_valida cargar_parametros \<and>
   init_ParametrosDesalinizador cargar_parametros = Inr params_defecto \<and>
   simular_desalinizador_anual semilla_nula ruido_nulo (Some params_defecto) () =
     (Inr tabla_defecto, ()) \<and>
   tabla_defecto ! 152 \<in> set tabla_defecto \<and>
   6 \<le> temp_ambiente_K (tabla_defecto ! 152) \<and>
   temp_inicial params_defecto \<le> temp_agua_K (tabla_defecto ! 152) \<and>
   0 \<le> GOR (tabla_defecto ! 152) \<and> GOR (tabla_defecto ! 152) \<le> 1 \<and>
   0 \<le> eficiencia_termica (tabla_defecto ! 152) \<and>
   eficiencia_termica (tabla_defecto ! 152) \<le> 1"
proof -
  have a: "6 \<le> temp_ambiente_K (tabla_defecto ! 152)"
    by (simp add: dia_152_defecto(3))
  have b: "temp_inicial params_defecto \<le> temp_agua_K (tabla_defecto ! 152)"
    by (simp add: dia_152_defecto(4) init_campos(4)[OF init_params_defecto] campos_defecto_mas)
  from metricas_acotadas[OF valida_defecto init_params_defecto dia_152_defecto(1,2)] a b
    valida_defecto init_params_defecto dia_152_defecto(1,2)
  show ?thesis by blast
qed

section \<open>C2: 365 daily records with the months of the calendar\<close>

text \<open>
  C2 fails on the code for the same reason as C4: on the valid configuration with the
  hemisphere 'sur' the annual simulation returns no table but the exception of the climate
  generator. (For a run that does return a table, \<open>calendario_simulacion\<close> above proves
  the 365 rows, the consecutive dates from January 1, 2024 and the months of the calendar.)
\<close>

theorem simulacion_hemisferio_sur:
  "config_valida config_sur \<and>
   fst (simular_desalinizador_anual semilla gauss
          (Some (projr (init_ParametrosDesalinizador config_sur))) g)
     = Inl (UnboundLocalError ''humedad_base'')"
proof -
  let ?p = "projr (init_ParametrosDesalinizador config_sur)"
  note f = init_campos[OF init_sur]
  have h: "hemisferio ?p = ''sur''" "cfg_variabilidad_diaria (param_sim ?p) = 100"
    by (simp_all add: f campos_sur)
  show ?thesis
    using simular_otro_hemisferio[of ?p semilla gauss g] h lower_sur valida_sur by simp
qed

section \<open>C3: bounds on the evaporated mass\<close>

text \<open>
  C3: for every valid configuration and every day of a simulated year, the evaporated mass
  is non-negative and at most 0.25 times the configured water mass; where the value
  computed for the day (after the cap) is below 0.001 kg the evaporated mass is exactly 0,
  and otherwise it is that value, so it is never strictly between 0 and 0.001; and the
  production in litres equals it.
\<close>

theorem masa_evaporada_acotada:
  assumes "config_valida c" and "init_ParametrosDesalinizador c = Inr p"
    and "simular_desalinizador_anual semilla gauss (Some p) g = (Inr tabla, g')"
    and "d \<in> set tabla"
  shows "0 \<le> masa_evaporada d \<and>
         masa_evaporada d \<le> (25/100) * cfg_masa_agua (condiciones_operacion c) \<and>
         (masa_evaporada d = 0 \<or> 1/1000 \<le> masa_evaporada d) \<and>
         (masa_sin_umbral p d < 1/1000 \<longrightarrow> masa_evaporada d = 0) \<and>
         (1/1000 \<le> masa_sin_umbral p d \<longrightarrow> masa_evaporada d = masa_sin_umbral p d) \<and>
         produccion_litros d = masa_evaporada d"
proof -
  from simular_filas[OF assms(3,4)] obtain rs :: resistencias and r where
    "d = fila_dia p (R_total rs * 8) r" by blast
  then have d: "d = fila_masa_evaporada p (fila_perdidas_termicas p (R_total rs * 8) (fila_temperatura r))"
    by (simp add: fila_dia_def)
  have u: "masa_evaporada d = (if masa_sin_umbral p d < 1/1000 then 0 else masa_sin_umbral p d)"
    unfolding d by (rule masa_umbral)
  from u have "(masa_sin_umbral p d < 1/1000 \<longrightarrow> masa_evaporada d = 0) \<and>
         (1/1000 \<le> masa_sin_umbral p d \<longrightarrow> masa_evaporada d = masa_sin_umbral p d)"
    by simp
  with masa_cotas[OF assms(1,2), of "fila_perdidas_termicas p (R_total rs * 8) (fila_temperatura r)"]
  show ?thesis unfolding d by blast
qed

theorem masa_evaporada_acotada_witness:
  "config_valida cargar_parametros \<and>
   init_ParametrosDesalinizador cargar_parametros = Inr params_defecto \<and>
   simular_desalinizador_anual semilla_nula ruido_nulo (Some params_defecto) () =
     (Inr tabla_defecto, ()) \<and>
   tabla_defecto ! 152 \<in> set tabla_defecto \<and>
   0 \<le> masa_evaporada (tabla_defecto ! 152) \<and>
   masa_evaporada (tabla_defecto ! 152) \<le> 1/2 \<and>
   1/1000 \<le> masa_sin_umbral params_defecto (tabla_defecto ! 152) \<and>
   masa_evaporada (tabla_defecto ! 152) = masa_sin_umbral params_defecto (tabla_defecto ! 152) \<and>
   produccion_litros (tabla_defecto ! 152) = masa_evaporada (tabla_defecto ! 152)"
proof -
  have m: "(25/100) * cfg_masa_agua (condiciones_operacion cargar_parametros) = 1/2"
    by (simp add: campos_defecto)
  from masa_evaporada_acotada[OF valida_defecto init_params_defecto dia_152_defecto(1,2)]
    valida_defecto init_params_defecto dia_152_defecto(1,2) masa_dia_152_defecto
  show ?thesis unfolding m by blast
qed

section \<open>C4: the climate generator and the southern hemisphere\<close>

text \<open>
  C4 fails on the code. The shipped configuration with the hemisphere set to 'sur', a value
  the configuration file documents as legal, is a valid configuration, and on it the
  climate generator raises \<open>UnboundLocalError\<close> for \<open>humedad_base\<close>, whatever the random
  generator and its state: the branch for the other hemisphere reads two locals that only
  the branch for 'norte' assigns.
\<close>

theorem generador_hemisferio_sur:
  "config_valida config_sur \<and>
   fst (generar_datos_anuales gauss
          (fst (init_ModeloClimatico semilla (projr (init_ParametrosDesalinizador config_sur)) g))
          (snd (init_ModeloClimatico semilla (projr (init_ParametrosDesalinizador config_sur)) g)))
     = Inl (UnboundLocalError ''humedad_base'')"
proof -
  let ?p = "projr (init_ParametrosDesalinizador config_sur)"
  let ?self = "fst (init_ModeloClimatico semilla ?p g)"
  note f = init_campos[OF init_sur]
  have h: "mc_hemisferio ?self = ''sur''" "cfg_variabilidad_diaria (mc_param_sim ?self) = 100"
    by (simp_all add: init_ModeloClimatico_def f campos_sur)
  show ?thesis
    using generar_otro_hemisferio[of ?self gauss] h lower_sur valida_sur by simp
qed

section \<open>C5: the same seed gives the same table\<close>

text \<open>
  C5: two runs of the annual simulation with the same configuration return the same
  result (the same table, field by field, or the same exception), whatever state the
  process-wide generator is in when each run starts, in particular the state the first run
  left behind: the constructor of the climate model installs the seed 42 before any draw.
\<close>

theorem semilla_fija:
  "fst (simular_desalinizador_anual semilla gauss params g) =
   fst (simular_desalinizador_anual semilla gauss params g')"
  unfolding simular_desalinizador_anual_def init_ModeloClimatico_def
  by (simp split: option.splits sum.splits prod.splits)

section \<open>C6: the seasonal summary\<close>

text \<open>
  C6: for every daily result table with at least one day (its months in 1..12), the
  summaries are computed without error; the seasonal summary has exactly four rows, one
  for each of the four named seasons; a season without any day in the table is present as
  the explicit zero row; and the production summed over the four seasonal rows equals the
  production summed over all daily records (exactly, in real arithmetic).
\<close>

theorem agregacion_estacional:
  assumes "df \<noteq> []" and "\<forall>r\<in>set df. 1 \<le> mes r \<and> mes r \<le> 12"
  shows "\<exists>dm de. visualizar_resultados df = Inr (dm, de) \<and>
           length de = 4 \<and> distinct (map e_estacion de) \<and>
           set (map e_estacion de) = {Invierno, Primavera, Verano, Otonio} \<and>
           sum_list (map e_produccion_litros de) = sum_list (map produccion_litros df) \<and>
           (\<forall>e\<in>{Invierno, Primavera, Verano, Otonio}.
               e \<notin> (\<lambda>r. estacion_de_mes (mes r)) ` set df \<longrightarrow> nueva_fila e \<in> set de)"
proof -
  let ?dm = "map fila_de_mes (groupby mes df)"
  note m = resumen_mensual_exito[OF assms(2)]
  note e = resumen_estacional_propiedades[OF m(3)]
  have b: "set estaciones_base = {Invierno, Primavera, Verano, Otonio}"
    by (simp add: estaciones_base_def)
  have z: "np_polyfit (map radiacion_Wm2 df) (map produccion_litros df) = Inr ()"
    using assms(1) by (simp add: np_polyfit_def)
  have v: "visualizar_resultados df = Inr (?dm, resumen_estacional ?dm)"
    by (simp add: visualizar_resultados_def m(1) z)
  have i: "(\<lambda>m. estacion_de_mes (m_mes m)) ` set ?dm = (\<lambda>r. estacion_de_mes (mes r)) ` set df"
    using meses_resumen[OF assms(2)] by (metis image_image)
  from v e(1,3) e(2)[unfolded b] e(4)[unfolded m(2)] e(5)[unfolded b i]
  show ?thesis by blast
qed

theorem agregacion_estacional_witness:
  "tabla_defecto \<noteq> [] \<and> list_all (\<lambda>r. 1 \<le> mes r \<and> mes r \<le> 12) tabla_defecto \<and>
   (\<exists>dm de. visualizar_resultados tabla_defecto = Inr (dm, de) \<and> length de = 4 \<and>
      set (map e_estacion de) = {Invierno, Primavera, Verano, Otonio} \<and>
      sum_list (map e_produccion_litros de) = sum_list (map produccion_litros tabla_defecto)) \<and>
   tabla_junio \<noteq> [] \<and> list_all (\<lambda>r. 1 \<le> mes r \<and> mes r \<le> 12) tabla_junio \<and>
   (\<exists>dm de. visualizar_resultados tabla_junio = Inr (dm, de) \<and> length de = 4 \<and>
      nueva_fila Invierno \<in> set de \<and> nueva_fila Primavera \<in> set de \<and>
      nueva_fila Otonio \<in> set de \<and>
      sum_list (map e_produccion_litros de) = produccion_litros (tabla_defecto ! 152))"
proof -
  have n: "tabla_defecto \<noteq> []" using dia_152_defecto(2) by auto
  have 1: "\<exists>dm de. visualizar_resultados tabla_defecto = Inr (dm, de) \<and> length de = 4 \<and>
      set (map e_estacion de) = {Invierno, Primavera, Verano, Otonio} \<and>
      sum_list (map e_produccion_litros de) = sum_list (map produccion_litros tabla_defecto)"
    using agregacion_estacional[OF n meses_tabla_defecto] by blast
  have j: "tabla_junio \<noteq> []" by (simp add: tabla_junio_def)
  have s: "Invierno \<noteq> Verano" "Primavera \<noteq> Verano" "Otonio \<noteq> Verano"
    by (simp_all add: Invierno_def Primavera_def Verano_def Otonio_def)
  from agregacion_estacional[OF j meses_tabla_junio] obtain dm de where
    v: "visualizar_resultados tabla_junio = Inr (dm, de)" "length de = 4"
      "sum_list (map e_produccion_litros de) = sum_list (map produccion_litros tabla_junio)"
    and f: "\<forall>e\<in>{Invierno, Primavera, Verano, Otonio}.
               e \<notin> (\<lambda>r. estacion_de_mes (mes r)) ` set tabla_junio \<longrightarrow> nueva_fila e \<in> set de"
    by blast
  from f s have "nueva_fila Invierno \<in> set de" "nueva_fila Primavera \<in> set de"
    "nueva_fila Otonio \<in> set de"
    unfolding estaciones_tabla_junio by simp_all
  moreover have "sum_list (map produccion_litros tabla_junio) = produccion_litros (tabla_defecto ! 152)"
    by (simp add: tabla_junio_def)
  ultimately have 2: "\<exists>dm de. visualizar_resultados tabla_junio = Inr (dm, de) \<and> length de = 4 \<and>
      nueva_fila Invierno \<in> set de \<and> nueva_fila Primavera \<in> set de \<and>
      nueva_fila Otonio \<in> set de \<and>
      sum_list (map e_produccion_litros de) = produccion_litros (tabla_defecto ! 152)"
    using v by auto
  from n j meses_tabla_defecto meses_tabla_junio 1 2 show ?thesis
    by (simp add: list_all_iff)
qed

section \<open>C7: the correlation on a production that is zero every day\<close>

text \<open>
  C7 fails on the code at a table whose production is 0 on every day, and the entry point
  returns such a table for a valid configuration: with 2 grams of water the daily cap,
  0.25 times the water mass, is 0.0005 kg, below the threshold of 0.001 kg, so for every
  state of the random generator the simulation returns its 365 days and the evaporated
  mass and the production of each are exactly 0. The simulator hands the irradiance and
  production columns of its table to \<open>Series.corr\<close> and uses the result as it comes; on a
  column of zeros the deviations from the mean and the standard deviation are exactly 0
  and the quotient of the library is 0 / 0, which is NaN where the claim says 0. The
  library's quotient is not modelled: what is proved is that the table is reached.
\<close>

theorem produccion_nula:
  "config_valida config_seca \<and>
   init_ParametrosDesalinizador config_seca = Inr params_seca \<and>
   (\<exists>tabla g'. simular_desalinizador_anual semilla gauss (Some params_seca) g = (Inr tabla, g') \<and>
      length tabla = 365 \<and>
      list_all (\<lambda>d. masa_evaporada d = 0 \<and> produccion_litros d = 0) tabla)"
proof -
  note f = init_campos[OF init_seca]
  have h: "lower (hemisferio params_seca) = ''norte''"
    by (simp add: f(20) campos_seca lower_norte)
  have var: "0 \<le> cfg_variabilidad_diaria (param_sim params_seca)"
    by (simp add: f(21) campos_seca)
  from resistencias_validas[OF valida_seca init_seca] obtain rs where
    "calcular_resistencias_totales params_seca = Inr rs" by blast
  from simular_norte[OF h var this, of semilla gauss g]
  obtain tabla g' where
    t: "simular_desalinizador_anual semilla gauss (Some params_seca) g = (Inr tabla, g')"
    by blast
  from calendario_simulacion[OF t] have l: "length tabla = 365" by simp
  have "masa_evaporada d = 0 \<and> produccion_litros d = 0" if d: "d \<in> set tabla" for d
  proof -
    from simular_filas[OF t d] obtain rs' :: resistencias and r where
      "d = fila_dia params_seca (R_total rs' * 8) r" by blast
    then have e: "d = fila_masa_evaporada params_seca
                    (fila_perdidas_termicas params_seca (R_total rs' * 8) (fila_temperatura r))"
      by (simp add: fila_dia_def)
    have c: "(25/100) * cfg_masa_agua (condiciones_operacion config_seca) = 5/10000"
      by (simp add: campos_seca)
    from masa_cotas[OF valida_seca init_seca,
        of "fila_perdidas_termicas params_seca (R_total rs' * 8) (fila_temperatura r)"]
    show ?thesis unfolding e c by linarith
  qed
  then have "list_all (\<lambda>d. masa_evaporada d = 0 \<and> produccion_litros d = 0) tabla"
    by (simp add: list_all_iff)
  with valida_seca init_seca t l show ?thesis by blast
qed

section \<open>C8: the constructor and non-physical configurations\<close>




section \<open>C9: efficiency bands and the temperature factor\<close>

text \<open>
  C9 fails on the code at an irradiance of exactly 800 W per square metre. Of the four
  named ranges, which are also the ranges of the comments on the efficiency factors
  ("above 800" for 0.85, "600 to 800" for 0.65), 800 lies in "600 to 800"; the code compares
  with \<open>>=\<close> and applies 0.85. With the shipped parameters and an ambient temperature of 30
  degrees Celsius (temperature factor 1) the code applies 0.85 where the named range
  gives 0.65.
\<close>

theorem eficiencia_en_800:
  "init_ParametrosDesalinizador cargar_parametros = Inr params_defecto \<and>
   eficiencia_sistema params_defecto 800 30 = 85/100 \<and>
   banda_nombrada 800 * np_clip ((30 + 10) / 40) (1/2) (12/10) = 65/100"
proof -
  have f: "factores_eficiencia params_defecto =
        \<lparr>alto = 85/100, medio = 65/100, bajo = 45/100, minimo = 25/100\<rparr>"
    by (rule init_campos[OF init_params_defecto])
  have "eficiencia_sistema params_defecto 800 30 = 85/100"
    by (simp add: eficiencia_sistema_def f factor_temp_def np_clip_def)
  moreover have "banda_nombrada 800 * np_clip ((30 + 10) / 40) (1/2) (12/10) = 65/100"
    by (simp add: banda_nombrada_def np_clip_def)
  ultimately show ?thesis using init_params_defecto by simp
qed

section \<open>C10: the temperature computation does not mutate its input\<close>

text \<open>
  C10: \<open>calcular_temperatura_sistema\<close> leaves the table it receives, and every other
  table that exists when it is called, unchanged: afterwards the store is the store before
  with one table allocated after it, whether the method returns or raises; and what it
  returns is the address of that new table, never the address of its input.
\<close>

theorem temperatura_no_muta:
  assumes "datos_climaticos < length s"
  shows "length (snd (calcular_temperatura_sistema_mem s datos_climaticos)) = Suc (length s) \<and>
         take (length s) (snd (calcular_temperatura_sistema_mem s datos_climaticos)) = s \<and>
         snd (calcular_temperatura_sistema_mem s datos_climaticos) ! datos_climaticos
           = s ! datos_climaticos \<and>
         (\<forall>df. fst (calcular_temperatura_sistema_mem s datos_climaticos) = Inr df \<longrightarrow>
               df = length s \<and> df \<noteq> datos_climaticos)"
proof -
  note e = temperatura_mem_extiende[of s datos_climaticos]
  from e have 1: "length (snd (calcular_temperatura_sistema_mem s datos_climaticos)) = Suc (length s)"
    and 2: "take (length s) (snd (calcular_temperatura_sistema_mem s datos_climaticos)) = s"
    by (simp_all add: extiende_def)
  have 3: "snd (calcular_temperatura_sistema_mem s datos_climaticos) ! datos_climaticos
           = s ! datos_climaticos"
    by (rule extiende_nth[OF e assms])
  have 4: "\<forall>df. fst (calcular_temperatura_sistema_mem s datos_climaticos) = Inr df \<longrightarrow>
               df = length s \<and> df \<noteq> datos_climaticos"
    using temperatura_mem_direccion[of s datos_climaticos] assms by auto
  from 1 2 3 4 show ?thesis by blast
qed

theorem temperatura_no_muta_witness:
  "(0::nat) < length almacen_ejemplo \<and>
   fst (calcular_temperatura_sistema_mem almacen_ejemplo 0) = Inr 1 \<and>
   length (snd (calcular_temperatura_sistema_mem almacen_ejemplo 0)) = 2 \<and>
   snd (calcular_temperatura_sistema_mem almacen_ejemplo 0) ! 0 = DataFrame_de_clima [dia_junio]"
proof -
  have l: "(0::nat) < length almacen_ejemplo" by (simp add: almacen_ejemplo_def)
  have f: "almacen_ejemplo ! 0 = DataFrame_de_clima [dia_junio]"
    by (simp add: almacen_ejemplo_def)
  have r: "fst (calcular_temperatura_sistema_mem almacen_ejemplo 0) = Inr 1"
    using temperatura_mem_filas(1)[OF l f] by (simp add: almacen_ejemplo_def)
  from temperatura_no_muta[OF l] l r f show ?thesis
    by (simp add: almacen_ejemplo_def)
qed

end
